theory Spec2Isabelle
  imports Complex_Main "HOL-Library.Sublist"
begin

section \<open>The anemia-detection training and export pipeline\<close>

text \<open>
  A shallow embedding of \<^verbatim>\<open>training/train_anemia_model.py\<close>. The deep-learning runtime
  (Keras, the TFLite converter, the optional tflite-support package) is opaque: every call
  into it is a field of the record \<open>engine\<close>, every such call may fail, and the theorems
  hold for every engine. Python floats are idealised as reals. The file system is a map
  from paths to nodes and the run's observable behaviour is a trace of events (printed
  messages and calls into the runtime), both threaded through every function as the
  \<open>world\<close>. A raised exception is the result \<open>Inl e\<close>, returned with the world as it was
  when the exception was raised.
\<close>

subsection \<open>Values, files and events\<close>

type_synonym path = string

text \<open>The exceptions of the run. \<open>RuntimeFailure\<close> is any exception raised inside the
  runtime, whatever its Python class, with its message; \<open>IOError\<close> is the one
  tflite-support raises for a file that does not exist.\<close>

datatype py_error =
    KeyError string
  | ZeroDivisionError
  | FileNotFoundError
  | FileExistsError
  | NotADirectoryError
  | IsADirectoryError
  | IOError
  | RuntimeFailure string

datatype pyval = PNum real | PInt int | PBool bool | PStr string | PList "pyval list"

type_synonym kwargs = "(string \<times> pyval) list"

datatype json = JStr string | JNum real | JArr "json list" | JObj "(string \<times> json) list"

datatype content = Binary "nat list" | Text string | Json json

datatype node = Dir | File content

type_synonym filesystem = "path \<rightharpoonup> node"

text \<open>Each constructor stands for one block of consecutive \<^verbatim>\<open>print\<close> calls of the script.\<close>

datatype message =
    RunHeader path int int real path
  | DataDirNotFound path
  | MissingClassDirs path
  | DatasetSummary nat nat
  | ModelArchitecture nat
  | ModelSummary
  | Phase1Banner
  | Phase2Banner
  | FineTuningEnabled nat
  | Evaluating
  | FinalMetricsHeader
  | MetricLine string real
  | F1Line real
  | KerasSaved path
  | ConvertBanner
  | TfliteSaved path nat
  | LabelsAndMetadataSaved path path
  | EmbeddedSaved path
  | TfliteSupportMissing
  | TrainingComplete path

datatype event =
    Print message
  | FlowFromDirectory kwargs path kwargs
  | LoadPretrained
  | Compile real
  | Fit int int "real option" nat
  | SaveCheckpoint path int real
  | Evaluate
  | Convert

record world =
  files :: filesystem
  trace :: "event list"

definition emit :: "event \<Rightarrow> world \<Rightarrow> world" where
  "emit e w = w\<lparr>trace := trace w @ [e]\<rparr>"

text \<open>A computation takes the world and returns a value or an exception, and the world
  it leaves.\<close>

type_synonym 'a io = "world \<Rightarrow> (py_error + 'a) \<times> world"

definition succeed :: "'a \<Rightarrow> 'a io" where
  "succeed x w = (Inr x, w)"

definition attempt :: "py_error + 'a \<Rightarrow> 'a io" where
  "attempt r w = (r, w)"

definition and_then :: "'a io \<Rightarrow> ('a \<Rightarrow> 'b io) \<Rightarrow> 'b io" where
  "and_then m f w = (case m w of (Inl e, w1) \<Rightarrow> (Inl e, w1) | (Inr x, w1) \<Rightarrow> f x w1)"

definition say :: "event \<Rightarrow> unit io" where
  "say e w = (Inr (), emit e w)"

definition always :: "(world \<Rightarrow> 'a \<times> world) \<Rightarrow> 'a io" where
  "always f w = (case f w of (x, w1) \<Rightarrow> (Inr x, w1))"

text \<open>A computation that reads the file system.\<close>

definition with_files :: "(filesystem \<Rightarrow> 'a io) \<Rightarrow> 'a io" where
  "with_files f w = f (files w) w"

text \<open>The outcome of a call into the runtime: its result, or the message of the exception
  it raised.\<close>

definition runtime :: "string + 'a \<Rightarrow> 'a io" where
  "runtime r w = (case r of Inl msg \<Rightarrow> (Inl (RuntimeFailure msg), w) | Inr x \<Rightarrow> (Inr x, w))"

text \<open>\<^verbatim>\<open>os.path.exists\<close> and \<^verbatim>\<open>os.path.join\<close> (two arguments, POSIX). Paths are
  compared as they are written: two spellings of one location are two keys of the map.\<close>

definition path_exists :: "filesystem \<Rightarrow> path \<Rightarrow> bool" where
  "path_exists fs p = (fs p \<noteq> None)"

definition path_join :: "path \<Rightarrow> path \<Rightarrow> path" where
  "path_join a b =
     (if b \<noteq> [] \<and> hd b = CHR ''/'' then b
      else if a = [] \<or> last a = CHR ''/'' then a @ b
      else a @ ''/'' @ b)"

text \<open>The directories above a path, outermost first: the prefixes that end before a
  separator (a run of separators counts once, the root is not listed).\<close>

fun dir_prefixes_from :: "path \<Rightarrow> path \<Rightarrow> path list" where
  "dir_prefixes_from pre [] = []"
| "dir_prefixes_from pre (c # cs) =
     (if c = CHR ''/'' \<and> pre \<noteq> [] \<and> last pre \<noteq> CHR ''/''
      then pre # dir_prefixes_from (pre @ [c]) cs
      else dir_prefixes_from (pre @ [c]) cs)"

definition ancestors :: "path \<Rightarrow> path list" where
  "ancestors p = dir_prefixes_from [] p"

definition strip_slashes :: "path \<Rightarrow> path" where
  "strip_slashes p = rev (dropWhile (\<lambda>c. c = CHR ''/'') (rev p))"

definition basename :: "path \<Rightarrow> path" where
  "basename p = rev (takeWhile (\<lambda>c. c \<noteq> CHR ''/'') (rev p))"

text \<open>
  \<^verbatim>\<open>os.makedirs(name, exist_ok=True)\<close>: the empty path raises \<^verbatim>\<open>FileNotFoundError\<close>;
  the missing directories above the path are created, outermost first, and a regular file
  among them raises \<^verbatim>\<open>NotADirectoryError\<close>; the path itself is created when it is missing,
  left alone when it is a directory, and raises \<^verbatim>\<open>FileExistsError\<close> when it is a regular
  file. Directories created before the exception stay. A directory that the map does not
  list counts as missing, the current directory included.
\<close>

fun mkdir_each :: "path list \<Rightarrow> filesystem \<Rightarrow> (py_error + unit) \<times> filesystem" where
  "mkdir_each [] fs = (Inr (), fs)"
| "mkdir_each (q # qs) fs =
     (case fs q of
        None \<Rightarrow> mkdir_each qs (fs(q \<mapsto> Dir))
      | Some Dir \<Rightarrow> mkdir_each qs fs
      | Some (File c) \<Rightarrow> (Inl NotADirectoryError, fs))"

definition makedirs :: "path \<Rightarrow> unit io" where
  "makedirs name w =
     (if name = [] then (Inl FileNotFoundError, w)
      else (let p = strip_slashes name
            in if p = [] then (Inr (), w)
               else (case mkdir_each (ancestors p) (files w) of
                       (Inl e, fs1) \<Rightarrow> (Inl e, w\<lparr>files := fs1\<rparr>)
                     | (Inr _, fs1) \<Rightarrow>
                         (case fs1 p of
                            None \<Rightarrow> (Inr (), w\<lparr>files := fs1(p \<mapsto> Dir)\<rparr>)
                          | Some Dir \<Rightarrow> (Inr (), w\<lparr>files := fs1\<rparr>)
                          | Some (File c) \<Rightarrow> (Inl FileExistsError, w\<lparr>files := fs1\<rparr>)))))"

text \<open>
  Writing a file (\<^verbatim>\<open>open(p, 'w')\<close> and \<^verbatim>\<open>write\<close>, or the runtime saving a model): a
  directory at the path raises \<^verbatim>\<open>IsADirectoryError\<close>, a missing directory above it
  \<^verbatim>\<open>FileNotFoundError\<close>, a regular file above it \<^verbatim>\<open>NotADirectoryError\<close>; otherwise the
  file holds the new content.
\<close>

definition store :: "path \<Rightarrow> content \<Rightarrow> world \<Rightarrow> world" where
  "store p c w = w\<lparr>files := (files w)(p \<mapsto> File c)\<rparr>"

definition write_file :: "path \<Rightarrow> content \<Rightarrow> unit io" where
  "write_file p c w =
     (if p = [] then (Inl FileNotFoundError, w)
      else (case files w p of
              Some Dir \<Rightarrow> (Inl IsADirectoryError, w)
            | _ \<Rightarrow>
                (if ancestors p = [] then (Inr (), store p c w)
                 else (case files w (last (ancestors p)) of
                         None \<Rightarrow> (Inl FileNotFoundError, w)
                       | Some (File d) \<Rightarrow> (Inl NotADirectoryError, w)
                       | Some Dir \<Rightarrow> (Inr (), store p c w)))))"

text \<open>\<^verbatim>\<open>dict(zip(keys, values))\<close>: the shorter list bounds the pairs, a later duplicate key wins.\<close>

definition dict_zip :: "string list \<Rightarrow> 'v list \<Rightarrow> (string \<rightharpoonup> 'v)" where
  "dict_zip ks vs = fold (\<lambda>(k, v) m. m(k \<mapsto> v)) (zip ks vs) Map.empty"

definition getitem :: "(string \<rightharpoonup> 'v) \<Rightarrow> string \<Rightarrow> py_error + 'v" where
  "getitem m k = (case m k of None \<Rightarrow> Inl (KeyError k) | Some v \<Rightarrow> Inr v)"

definition truediv :: "real \<Rightarrow> real \<Rightarrow> py_error + real" where
  "truediv a b = (if b = 0 then Inl ZeroDivisionError else Inr (a / b))"

text \<open>\<^verbatim>\<open>xs[:stop]\<close>: a negative bound counts from the end, and the bound is clamped to the list.\<close>

definition slice_to :: "'a list \<Rightarrow> int \<Rightarrow> 'a list" where
  "slice_to xs stop =
     (let n = int (length xs);
          s = (if stop < 0 then max 0 (stop + n) else min stop n)
      in take (nat s) xs)"

subsection \<open>Configuration and the runtime\<close>

record args =
  data_dir :: path
  epochs :: int
  batch_size :: int
  learning_rate :: real
  output_dir :: path
  fine_tune_layers :: int

definition default_args :: args where
  "default_args = \<lparr>data_dir = ''./data'', epochs = 50, batch_size = 32,
     learning_rate = 1 / 1000, output_dir = ''./models'', fine_tune_layers = 20\<rparr>"

definition IMG_SIZE :: pyval where
  "IMG_SIZE = PList [PInt 224, PInt 224]"

definition CLASSES :: pyval where
  "CLASSES = PList [PStr ''normal'', PStr ''anemic'']"

record layer =
  layer_name :: string
  trainable :: bool

record compile_config =
  optimizer_lr :: real
  loss_fn :: string
  compiled_metrics :: "string list"

record 'w keras_model =
  base_layers :: "layer list"
  head :: "kwargs list"
  weights :: 'w
  compiled :: "compile_config option"

record generator =
  datagen :: kwargs
  flow :: kwargs
  samples :: nat

record callbacks =
  early_stopping :: kwargs
  checkpoint_path :: path
  model_checkpoint :: kwargs
  reduce_lr :: kwargs
  best :: "real option"

record 'w epoch_log =
  epoch :: int
  val_auc :: real
  epoch_weights :: 'w

text \<open>The tflite-support package: packing the metadata structure into a buffer,
  \<^verbatim>\<open>load_metadata_buffer\<close>, which validates the buffer, and \<^verbatim>\<open>populate()\<close>, which
  computes the bytes of the model file with the buffer and the associated files in it. Each
  may raise.\<close>

record tflite_support =
  pack :: "json \<Rightarrow> string + nat list"
  load_metadata_buffer :: "nat list \<Rightarrow> string + unit"
  populate :: "content \<Rightarrow> nat list \<Rightarrow> (path \<times> content) list \<Rightarrow> string + nat list"

text \<open>
  The runtime. Every call returns its result or the message of the exception it raised.
  \<open>train\<close> is the body of \<^verbatim>\<open>model.fit\<close>: for the epochs it completes (early stopping
  and the learning-rate schedule act inside it) it reports the epoch index, the monitored
  validation AUC and the parameters at the end of the epoch; then it gives the parameters
  the model is left with, or the exception that ended training. It reads the images, so it
  is given the file system, as are \<open>count_images\<close> and \<open>evaluate\<close>. \<open>tflite\<close> is \<open>None\<close>
  when importing tflite-support raises \<^verbatim>\<open>ImportError\<close>.
\<close>

record 'w engine =
  count_images :: "filesystem \<Rightarrow> path \<Rightarrow> kwargs \<Rightarrow> kwargs \<Rightarrow> string + nat"
  MobileNetV3Small :: "string + layer list"
  pretrained :: 'w
  count_params :: "'w keras_model \<Rightarrow> nat"
  train :: "filesystem \<Rightarrow> 'w keras_model \<Rightarrow> generator \<Rightarrow> generator \<Rightarrow> callbacks \<Rightarrow> int \<Rightarrow> int
              \<Rightarrow> 'w epoch_log list \<times> (string + 'w)"
  metrics_names :: "'w keras_model \<Rightarrow> string list"
  evaluate :: "filesystem \<Rightarrow> 'w keras_model \<Rightarrow> generator \<Rightarrow> string + real list"
  serialize :: "'w keras_model \<Rightarrow> string + nat list"
  convert :: "'w keras_model \<Rightarrow> string + nat list"
  tflite :: "tflite_support option"

subsection \<open>Data generators\<close>

definition train_datagen :: "real \<Rightarrow> kwargs" where
  "train_datagen validation_split =
     [(''rescale'', PNum (1 / 255)),
      (''rotation_range'', PInt 20),
      (''width_shift_range'', PNum (2 / 10)),
      (''height_shift_range'', PNum (2 / 10)),
      (''shear_range'', PNum (15 / 100)),
      (''zoom_range'', PNum (2 / 10)),
      (''horizontal_flip'', PBool True),
      (''brightness_range'', PList [PNum (8 / 10), PNum (12 / 10)]),
      (''fill_mode'', PStr ''nearest''),
      (''validation_split'', PNum validation_split)]"

definition val_datagen :: "real \<Rightarrow> kwargs" where
  "val_datagen validation_split =
     [(''rescale'', PNum (1 / 255)),
      (''validation_split'', PNum validation_split)]"

definition flow_args :: "int \<Rightarrow> string \<Rightarrow> bool \<Rightarrow> kwargs" where
  "flow_args bs part shuf =
     [(''target_size'', IMG_SIZE),
      (''batch_size'', PInt bs),
      (''class_mode'', PStr ''binary''),
      (''classes'', CLASSES),
      (''subset'', PStr part),
      (''shuffle'', PBool shuf)]"

text \<open>The event \<open>FlowFromDirectory\<close> records the call; the runtime then scans the
  directory, which may raise.\<close>

definition flow_from_directory ::
  "'w engine \<Rightarrow> kwargs \<Rightarrow> path \<Rightarrow> kwargs \<Rightarrow> generator io" where
  "flow_from_directory eng dg dir fl =
     and_then (say (FlowFromDirectory dg dir fl)) (\<lambda>_.
     with_files (\<lambda>fs.
     and_then (runtime (count_images eng fs dir dg fl)) (\<lambda>n.
     succeed \<lparr>datagen = dg, flow = fl, samples = n\<rparr>)))"

definition create_data_generators ::
  "'w engine \<Rightarrow> path \<Rightarrow> int \<Rightarrow> real \<Rightarrow> (generator \<times> generator) io" where
  "create_data_generators eng dir bs validation_split =
     and_then (flow_from_directory eng (train_datagen validation_split) dir
                 (flow_args bs ''training'' True)) (\<lambda>train_generator.
     and_then (flow_from_directory eng (val_datagen validation_split) dir
                 (flow_args bs ''validation'' False)) (\<lambda>validation_generator.
     and_then (say (Print (DatasetSummary (samples train_generator)
                 (samples validation_generator)))) (\<lambda>_.
     succeed (train_generator, validation_generator))))"

subsection \<open>The model\<close>

definition set_trainable :: "bool \<Rightarrow> layer \<Rightarrow> layer" where
  "set_trainable b l = l\<lparr>trainable := b\<rparr>"

definition classification_head :: "kwargs list" where
  "classification_head =
     [[(''layer'', PStr ''Dropout''), (''rate'', PNum (3 / 10))],
      [(''layer'', PStr ''Dense''), (''units'', PInt 128), (''activation'', PStr ''relu''),
       (''l2'', PNum (1 / 100))],
      [(''layer'', PStr ''BatchNormalization'')],
      [(''layer'', PStr ''Dropout''), (''rate'', PNum (4 / 10))],
      [(''layer'', PStr ''Dense''), (''units'', PInt 64), (''activation'', PStr ''relu''),
       (''l2'', PNum (1 / 100))],
      [(''layer'', PStr ''Dropout''), (''rate'', PNum (3 / 10))],
      [(''layer'', PStr ''Dense''), (''units'', PInt 1), (''activation'', PStr ''sigmoid''),
       (''name'', PStr ''anemia_probability'')]]"

text \<open>
  \<^verbatim>\<open>create_model\<close> returns the model and a handle to the feature extractor inside it;
  the two are one object, so the handle is the field \<open>base_layers\<close> of the model.
  Assigning \<^verbatim>\<open>base_model.trainable\<close> sets the flag of every layer of the extractor.
  The argument \<^verbatim>\<open>fine_tune_layers\<close> (here \<open>k\<close>) is not used by the function.
\<close>

definition create_model :: "'w engine \<Rightarrow> int \<Rightarrow> 'w keras_model io" where
  "create_model eng k =
     and_then (say LoadPretrained) (\<lambda>_.
     and_then (runtime (MobileNetV3Small eng)) (\<lambda>loaded.
       let base_model = map (set_trainable False) loaded;
           model = \<lparr>base_layers = base_model, head = classification_head,
                    weights = pretrained eng, compiled = None\<rparr>
       in and_then (say (Print (ModelArchitecture (count_params eng model)))) (\<lambda>_.
          succeed model)))"

definition compile_with :: "real \<Rightarrow> compile_config" where
  "compile_with lr = \<lparr>optimizer_lr = lr, loss_fn = ''binary_crossentropy'',
     compiled_metrics = [''accuracy'', ''precision'', ''recall'', ''auc'']\<rparr>"

definition compile_model :: "'w keras_model \<Rightarrow> real \<Rightarrow> world \<Rightarrow> 'w keras_model \<times> world" where
  "compile_model model lr w =
     (model\<lparr>compiled := Some (compile_with lr)\<rparr>, emit (Compile lr) w)"

definition get_callbacks :: "path \<Rightarrow> callbacks io" where
  "get_callbacks out =
     and_then (makedirs out) (\<lambda>_.
     succeed
       \<lparr>early_stopping =
          [(''monitor'', PStr ''val_auc''), (''patience'', PInt 10),
           (''restore_best_weights'', PBool True), (''mode'', PStr ''max''),
           (''verbose'', PInt 1)],
        checkpoint_path = path_join out ''anemia_model_best.keras'',
        model_checkpoint =
          [(''monitor'', PStr ''val_auc''), (''save_best_only'', PBool True),
           (''mode'', PStr ''max''), (''verbose'', PInt 1)],
        reduce_lr =
          [(''monitor'', PStr ''val_loss''), (''factor'', PNum (1 / 2)),
           (''patience'', PInt 5), (''min_lr'', PNum (1 / 10000000)),
           (''verbose'', PInt 1)],
        best = None\<rparr>)"

text \<open>
  \<^verbatim>\<open>fine_tune_model\<close> (with \<open>k\<close> for \<^verbatim>\<open>fine_tune_layers\<close> and \<open>lr\<close> for
  \<^verbatim>\<open>learning_rate\<close>, which name the fields of \<open>args\<close> here): every layer of the extractor is made trainable, the layers of
  the slice \<^verbatim>\<open>base_model.layers[:-fine_tune_layers]\<close> are frozen again, and the model is
  recompiled at a tenth of the rate. The slice is a prefix of the layer list, so freezing
  its members freezes the first \<open>length slice\<close> layers of the extractor.
\<close>

definition fine_tune_model ::
  "'w keras_model \<Rightarrow> int \<Rightarrow> real \<Rightarrow> world \<Rightarrow> 'w keras_model \<times> world" where
  "fine_tune_model model k lr w =
     (let unfrozen = map (set_trainable True) (base_layers model);
          frozen = slice_to unfrozen (- k);
          base = map (set_trainable False) frozen @ drop (length frozen) unfrozen;
          model1 = model\<lparr>base_layers := base,
                     compiled := Some (compile_with (lr / 10))\<rparr>;
          w1 = emit (Compile (lr / 10)) w;
          trainable_count = length (filter trainable base);
          w2 = emit (Print (FineTuningEnabled trainable_count)) w1
      in (model1, w2))"

subsection \<open>Training\<close>

fun improved :: "real \<Rightarrow> real option \<Rightarrow> bool" where
  "improved v None = True"
| "improved v (Some b) = (b < v)"

text \<open>\<^verbatim>\<open>model.save(p)\<close>: the runtime serialises the model, which may raise, and the bytes
  are written to the file.\<close>

definition save_model :: "'w engine \<Rightarrow> 'w keras_model \<Rightarrow> path \<Rightarrow> unit io" where
  "save_model eng model p =
     and_then (runtime (serialize eng model)) (\<lambda>bytes. write_file p (Binary bytes))"

text \<open>
  Modelled from the spec: the behaviour of the checkpointing callback
  (\<^verbatim>\<open>ModelCheckpoint\<close> with \<^verbatim>\<open>save_best_only\<close>, mode \<^verbatim>\<open>max\<close>, monitoring
  \<^verbatim>\<open>val_auc\<close>) belongs to the runtime and is not part of the sources. Section 4.3a:
  whenever the monitored value exceeds the best-seen value, the current parameters are
  persisted as the new best, and this is the only mutation of the best-checkpoint file.
  Before the first epoch there is no best-seen value and the first epoch is persisted.
  The event \<open>SaveCheckpoint\<close> records a checkpoint that has been written; an exception
  while saving ends the call of \<^verbatim>\<open>fit\<close>.
\<close>

fun checkpoint_epochs ::
  "'w engine \<Rightarrow> 'w keras_model \<Rightarrow> 'w epoch_log list \<Rightarrow> callbacks \<Rightarrow> callbacks io" where
  "checkpoint_epochs eng model [] cbs w = (Inr cbs, w)"
| "checkpoint_epochs eng model (l # ls) cbs w =
     (if improved (val_auc l) (best cbs)
      then (case save_model eng (model\<lparr>weights := epoch_weights l\<rparr>) (checkpoint_path cbs) w of
              (Inl e, w1) \<Rightarrow> (Inl e, w1)
            | (Inr _, w1) \<Rightarrow>
                checkpoint_epochs eng model ls (cbs\<lparr>best := Some (val_auc l)\<rparr>)
                  (emit (SaveCheckpoint (checkpoint_path cbs) (epoch l) (val_auc l)) w1))
      else checkpoint_epochs eng model ls cbs w)"

text \<open>
  \<^verbatim>\<open>model.fit(train_gen, epochs=..., initial_epoch=..., validation_data=val_gen,
  callbacks=callbacks)\<close>. The callback objects are mutated in place by the call, so the
  callbacks are returned with the model. The event \<open>Fit\<close> records the call: the two epoch
  arguments, the learning rate the model was compiled with and the number of trainable
  layers of its feature extractor. The checkpoints of the epochs the runtime completed are
  taken, and then the call returns or raises as the runtime did.
\<close>

definition fit ::
  "'w engine \<Rightarrow> 'w keras_model \<Rightarrow> generator \<Rightarrow> generator \<Rightarrow> callbacks \<Rightarrow> int \<Rightarrow> int
     \<Rightarrow> ('w keras_model \<times> callbacks) io" where
  "fit eng model train_gen val_gen cbs n_epochs initial_epoch =
     and_then (say (Fit n_epochs initial_epoch (map_option optimizer_lr (compiled model))
                 (length (filter trainable (base_layers model))))) (\<lambda>_.
     with_files (\<lambda>fs.
       let (logs, final) = train eng fs model train_gen val_gen cbs n_epochs initial_epoch
       in and_then (checkpoint_epochs eng model logs cbs) (\<lambda>cbs1.
          and_then (runtime final) (\<lambda>final_weights.
          succeed (model\<lparr>weights := final_weights\<rparr>, cbs1)))))"

subsection \<open>Evaluation\<close>

fun print_lines :: "(string \<rightharpoonup> real) \<Rightarrow> (string \<times> string) list \<Rightarrow> unit io" where
  "print_lines m [] w = (Inr (), w)"
| "print_lines m ((label, key) # rest) w =
     (case getitem m key of
        Inl e \<Rightarrow> (Inl e, w)
      | Inr v \<Rightarrow> print_lines m rest (emit (Print (MetricLine label v)) w))"

text \<open>The event \<open>Evaluate\<close> records the call of \<^verbatim>\<open>model.evaluate\<close>, which may raise.\<close>

definition evaluate_model ::
  "'w engine \<Rightarrow> 'w keras_model \<Rightarrow> generator \<Rightarrow> (string \<rightharpoonup> real) io" where
  "evaluate_model eng model validation_generator =
     and_then (say (Print Evaluating)) (\<lambda>_.
     and_then (say Evaluate) (\<lambda>_.
     with_files (\<lambda>fs.
     and_then (runtime (evaluate eng fs model validation_generator)) (\<lambda>results.
       let metrics = dict_zip (metrics_names eng model) results
       in and_then (say (Print FinalMetricsHeader)) (\<lambda>_.
          and_then (print_lines metrics
                      [(''Loss'', ''loss''), (''Accuracy'', ''accuracy''),
                       (''Precision'', ''precision''), (''Recall'', ''recall''),
                       (''AUC'', ''auc'')]) (\<lambda>_.
          and_then (attempt (getitem metrics ''precision'')) (\<lambda>p.
          and_then (attempt (getitem metrics ''recall'')) (\<lambda>r.
            if p + r > 0
            then and_then (attempt (truediv (2 * (p * r)) (p + r))) (\<lambda>f1.
                 and_then (say (Print (F1Line f1))) (\<lambda>_. succeed metrics))
            else succeed metrics))))))))"

subsection \<open>Export and packaging\<close>

definition labels_text :: string where
  "labels_text = ''Non-Anemic'' @ [CHR 0x0A] @ ''Anemic''"

definition metadata :: json where
  "metadata = JObj
     [(''name'', JStr ''Anemia Detector''),
      (''description'', JStr ''Detects anemia from eye conjunctiva images''),
      (''version'', JStr ''1.0.0''),
      (''author'', JStr ''MatriPixel AI''),
      (''input'', JObj
         [(''name'', JStr ''input_image''),
          (''shape'', JArr [JNum 1, JNum 224, JNum 224, JNum 3]),
          (''type'', JStr ''float32''),
          (''normalization'', JObj
             [(''mean'', JArr [JNum (1275 / 10), JNum (1275 / 10), JNum (1275 / 10)]),
              (''std'', JArr [JNum (1275 / 10), JNum (1275 / 10), JNum (1275 / 10)])])]),
      (''output'', JObj
         [(''name'', JStr ''anemia_probability''),
          (''shape'', JArr [JNum 1, JNum 1]),
          (''type'', JStr ''float32''),
          (''labels'', JArr [JStr ''Non-Anemic'', JStr ''Anemic'']),
          (''threshold'', JNum (1 / 2))])]"

definition convert_to_tflite :: "'w engine \<Rightarrow> 'w keras_model \<Rightarrow> path \<Rightarrow> path io" where
  "convert_to_tflite eng model out =
     and_then (makedirs out) (\<lambda>_.
     and_then (say Convert) (\<lambda>_.
     and_then (runtime (convert eng model)) (\<lambda>tflite_model.
       let tflite_path = path_join out ''anemia_detector.tflite''
       in and_then (write_file tflite_path (Binary tflite_model)) (\<lambda>_.
          and_then (say (Print (TfliteSaved tflite_path (length tflite_model)))) (\<lambda>_.
            let labels_path = path_join out ''labels.txt''
            in and_then (write_file labels_path (Text labels_text)) (\<lambda>_.
                 let metadata_path = path_join out ''model_metadata.json''
                 in and_then (write_file metadata_path (Json metadata)) (\<lambda>_.
                    and_then (say (Print (LabelsAndMetadataSaved labels_path metadata_path)))
                      (\<lambda>_. succeed tflite_path))))))))"

text \<open>The structure \<^verbatim>\<open>model_meta\<close> that \<^verbatim>\<open>add_tflite_metadata\<close> builds before packing it.\<close>

definition model_meta :: json where
  "model_meta = JObj
     [(''name'', JStr ''Anemia Detector''),
      (''description'', JStr (''Detects anemia from eye conjunctiva images. '' @
          ''Output is a probability score where 0 = Non-Anemic and 1 = Anemic.'')),
      (''version'', JStr ''1.0.0''),
      (''author'', JStr ''MatriPixel AI''),
      (''license'', JStr ''Apache License 2.0''),
      (''subgraphMetadata'', JArr [JObj
         [(''inputTensorMetadata'', JArr [JObj
             [(''name'', JStr ''image''),
              (''description'', JStr ''Input eye image to be classified''),
              (''colorSpace'', JStr ''RGB''),
              (''contentPropertiesType'', JStr ''ImageProperties''),
              (''processUnits'', JArr [JObj
                 [(''optionsType'', JStr ''NormalizationOptions''),
                  (''mean'', JArr [JNum (1275 / 10), JNum (1275 / 10), JNum (1275 / 10)]),
                  (''std'', JArr [JNum (1275 / 10), JNum (1275 / 10), JNum (1275 / 10)])]])]]),
          (''outputTensorMetadata'', JArr [JObj
             [(''name'', JStr ''probability''),
              (''description'', JStr ''Probability of anemia (0 = Non-Anemic, 1 = Anemic)''),
              (''contentPropertiesType'', JStr ''FeatureProperties'')]])]])]"

text \<open>
  \<^verbatim>\<open>MetadataPopulator.with_model_file(p)\<close> opens the model file, \<^verbatim>\<open>load_metadata_buffer\<close>
  validates the buffer, \<^verbatim>\<open>load_associated_files\<close> checks that the label file exists, and
  \<^verbatim>\<open>populate()\<close> works on the model file the populator was given and writes the result
  back to that file. \<^verbatim>\<open>shutil.copy(src, dst)\<close> copies a regular file, into \<open>dst\<close> when
  that is a directory.
\<close>

definition populate_file :: "tflite_support \<Rightarrow> path \<Rightarrow> nat list \<Rightarrow> path \<Rightarrow> unit io" where
  "populate_file lib p buf labels_path =
     with_files (\<lambda>fs.
       case fs p of
         None \<Rightarrow> attempt (Inl IOError)
       | Some Dir \<Rightarrow> attempt (Inl IsADirectoryError)
       | Some (File c) \<Rightarrow>
           and_then (runtime (load_metadata_buffer lib buf)) (\<lambda>_.
             case fs labels_path of
               None \<Rightarrow> attempt (Inl IOError)
             | Some Dir \<Rightarrow> attempt (Inl IsADirectoryError)
             | Some (File labels) \<Rightarrow>
                 and_then (runtime (populate lib c buf [(labels_path, labels)])) (\<lambda>bytes.
                 always (\<lambda>w. ((), store p (Binary bytes) w)))))"

definition copy_file :: "path \<Rightarrow> path \<Rightarrow> unit io" where
  "copy_file src dst w =
     (case files w src of
        None \<Rightarrow> (Inl FileNotFoundError, w)
      | Some Dir \<Rightarrow> (Inl IsADirectoryError, w)
      | Some (File c) \<Rightarrow>
          (case files w dst of
             Some Dir \<Rightarrow> write_file (path_join dst (basename src)) c w
           | _ \<Rightarrow> write_file dst c w))"

text \<open>The import of tflite-support comes first; \<^verbatim>\<open>ImportError\<close> is the one exception
  the function catches.\<close>

definition add_tflite_metadata :: "'w engine \<Rightarrow> path \<Rightarrow> path \<Rightarrow> path io" where
  "add_tflite_metadata eng tflite_path out =
     (case tflite eng of
        None \<Rightarrow> and_then (say (Print TfliteSupportMissing)) (\<lambda>_. succeed tflite_path)
      | Some lib \<Rightarrow>
          and_then (runtime (pack lib model_meta)) (\<lambda>metadata_buf.
            let output_path = path_join out ''anemia_detector_with_metadata.tflite'';
                labels_path = path_join out ''labels.txt''
            in and_then (populate_file lib tflite_path metadata_buf labels_path) (\<lambda>_.
               and_then (copy_file tflite_path output_path) (\<lambda>_.
               and_then (populate_file lib output_path metadata_buf labels_path) (\<lambda>_.
               and_then (say (Print (EmbeddedSaved output_path))) (\<lambda>_.
               succeed output_path))))))"

subsection \<open>The pipeline\<close>

text \<open>
  \<^verbatim>\<open>main\<close>, in five parts: the checks of the data directory that guard the rest, the
  preparation (data generators, model, callbacks), the two training phases, evaluation
  with the saving of the trained model, and the export. The callbacks are created once, in
  the preparation, and the same objects are passed to both calls of \<^verbatim>\<open>fit\<close>. An
  exception raised in any part ends the run.
\<close>

definition prepare ::
  "'w engine \<Rightarrow> args \<Rightarrow> ('w keras_model \<times> generator \<times> generator \<times> callbacks) io" where
  "prepare eng a =
     and_then (create_data_generators eng (data_dir a) (batch_size a) (2 / 10))
       (\<lambda>(train_gen, val_gen).
     and_then (create_model eng (fine_tune_layers a)) (\<lambda>model0.
     and_then (always (compile_model model0 (learning_rate a))) (\<lambda>model1.
     and_then (say (Print ModelSummary)) (\<lambda>_.
     and_then (get_callbacks (output_dir a)) (\<lambda>cbs.
     and_then (say (Print Phase1Banner)) (\<lambda>_.
     succeed (model1, train_gen, val_gen, cbs)))))))"

definition train_phases :: "'w engine \<Rightarrow> args \<Rightarrow> ('w keras_model \<times> generator) io" where
  "train_phases eng a =
     and_then (prepare eng a) (\<lambda>(model1, train_gen, val_gen, cbs).
       let initial_epochs = min 10 (epochs a div 2)
       in and_then (fit eng model1 train_gen val_gen cbs initial_epochs 0) (\<lambda>(model2, cbs1).
            if epochs a > initial_epochs
            then and_then (say (Print Phase2Banner)) (\<lambda>_.
                 and_then (always (fine_tune_model model2 (fine_tune_layers a)
                             (learning_rate a))) (\<lambda>model3.
                 and_then (fit eng model3 train_gen val_gen cbs1 (epochs a) initial_epochs)
                   (\<lambda>(model4, cbs2). succeed (model4, val_gen))))
            else succeed (model2, val_gen)))"

definition evaluate_and_save ::
  "'w engine \<Rightarrow> args \<Rightarrow> 'w keras_model \<Rightarrow> generator \<Rightarrow> unit io" where
  "evaluate_and_save eng a model val_gen =
     and_then (evaluate_model eng model val_gen) (\<lambda>metrics.
       let keras_path = path_join (output_dir a) ''anemia_model_final.keras''
       in and_then (save_model eng model keras_path) (\<lambda>_.
          say (Print (KerasSaved keras_path))))"

definition export_and_finish :: "'w engine \<Rightarrow> args \<Rightarrow> 'w keras_model \<Rightarrow> unit io" where
  "export_and_finish eng a model =
     and_then (say (Print ConvertBanner)) (\<lambda>_.
     and_then (convert_to_tflite eng model (output_dir a)) (\<lambda>tflite_path.
     and_then (add_tflite_metadata eng tflite_path (output_dir a)) (\<lambda>_.
     say (Print (TrainingComplete (output_dir a))))))"

definition print_header :: "args \<Rightarrow> filesystem \<Rightarrow> world" where
  "print_header a fs =
     emit (Print (RunHeader (data_dir a) (epochs a) (batch_size a) (learning_rate a)
       (output_dir a))) \<lparr>files = fs, trace = []\<rparr>"

definition main :: "'w engine \<Rightarrow> args \<Rightarrow> filesystem \<Rightarrow> (py_error + unit) \<times> world" where
  "main eng a fs =
     (let w = print_header a fs
      in if \<not> path_exists (files w) (data_dir a)
         then (Inr (), emit (Print (DataDirNotFound (data_dir a))) w)
         else (let anemic_dir = path_join (data_dir a) ''anemic'';
                   normal_dir = path_join (data_dir a) ''normal''
               in if \<not> path_exists (files w) anemic_dir \<or> \<not> path_exists (files w) normal_dir
                  then (Inr (), emit (Print (MissingClassDirs (data_dir a))) w)
                  else and_then (train_phases eng a) (\<lambda>(model, val_gen).
                       and_then (evaluate_and_save eng a model val_gen) (\<lambda>_.
                       export_and_finish eng a model)) w))"

subsection \<open>Sample inputs\<close>

text \<open>
  A small runtime and file system on which the theorems below are instantiated: a
  feature extractor of three layers, parameters that are plain integers, two epochs
  reported by every call of \<^verbatim>\<open>fit\<close>, and a metadata library that puts the
  metadata buffer after the two bytes of the converted model. The second library is as
  the first, except that it refuses a model that already holds metadata.
\<close>

definition sample_layers :: "layer list" where
  "sample_layers =
     [\<lparr>layer_name = ''conv'', trainable = True\<rparr>,
      \<lparr>layer_name = ''block_1'', trainable = True\<rparr>,
      \<lparr>layer_name = ''block_2'', trainable = True\<rparr>]"

definition sample_model :: "int keras_model" where
  "sample_model = \<lparr>base_layers = map (set_trainable False) sample_layers,
     head = classification_head, weights = 0, compiled = Some (compile_with (1 / 1000))\<rparr>"

definition sample_world :: world where
  "sample_world = \<lparr>files = Map.empty, trace = []\<rparr>"

definition sample_tflite :: tflite_support where
  "sample_tflite =
     \<lparr>pack = (\<lambda>j. Inr [77, 69, 84, 65]),
      load_metadata_buffer = (\<lambda>buf. Inr ()),
      populate = (\<lambda>c buf assoc.
        case c of Binary b \<Rightarrow> Inr (take 2 b @ buf) | _ \<Rightarrow> Inl ''not a model'')\<rparr>"

definition strict_tflite :: tflite_support where
  "strict_tflite =
     \<lparr>pack = (\<lambda>j. Inr [77, 69, 84, 65]),
      load_metadata_buffer = (\<lambda>buf. Inr ()),
      populate = (\<lambda>c buf assoc.
        case c of
          Binary b \<Rightarrow> if length b > 2 then Inl ''already packed'' else Inr (b @ buf)
        | _ \<Rightarrow> Inl ''not a model'')\<rparr>"

definition sample_engine :: "tflite_support option \<Rightarrow> real list \<Rightarrow> int engine" where
  "sample_engine lib results =
     \<lparr>count_images = (\<lambda>fs dir dg fl. Inr 0),
      MobileNetV3Small = Inr sample_layers,
      pretrained = 0,
      count_params = (\<lambda>m. 1000),
      train = (\<lambda>fs m tg vg cbs n i.
        ([\<lparr>epoch = i, val_auc = 6 / 10, epoch_weights = weights m + 1\<rparr>,
          \<lparr>epoch = i + 1, val_auc = (if i = 0 then 5 / 10 else 7 / 10),
           epoch_weights = weights m + 2\<rparr>], Inr (weights m + 2))),
      metrics_names = (\<lambda>m. [''loss'', ''accuracy'', ''precision'', ''recall'', ''auc'']),
      evaluate = (\<lambda>fs m g. Inr results),
      serialize = (\<lambda>m. Inr [nat (weights m)]),
      convert = (\<lambda>m. Inr [nat (weights m), 16]),
      tflite = lib\<rparr>"

text \<open>A runtime as the sample one, whose training raises in the first epoch.\<close>

definition failing_engine :: "int engine" where
  "failing_engine =
     (sample_engine None [])\<lparr>train := (\<lambda>fs m tg vg cbs n i. ([], Inl ''no images''))\<rparr>"

definition sample_generator :: generator where
  "sample_generator = \<lparr>datagen = val_datagen (2 / 10),
     flow = flow_args 32 ''validation'' False, samples = 16\<rparr>"

definition sample_fs :: filesystem where
  "sample_fs =
     [''./data'' \<mapsto> Dir,
      ''./data/anemic'' \<mapsto> Dir,
      ''./data/normal'' \<mapsto> Dir,
      ''./data/normal/img_0.jpg'' \<mapsto> File (Binary [255, 216])]"

definition sample_args :: args where
  "sample_args = default_args\<lparr>epochs := 4\<rparr>"

subsection \<open>Observations on a run\<close>

text \<open>A directory is empty when it exists and no path below it does.\<close>

definition dir_empty :: "filesystem \<Rightarrow> path \<Rightarrow> bool" where
  "dir_empty fs d = (fs d = Some Dir \<and> (\<forall>n. fs (d @ ''/'' @ n) = None))"

text \<open>The monitored values of the checkpoints a run persists, the calls that configure and
  start training, and the calls that partition the data, each in the order of the trace.\<close>

fun persisted_auc :: "event \<Rightarrow> real option" where
  "persisted_auc (SaveCheckpoint p e v) = Some v"
| "persisted_auc _ = None"

fun schedule_event :: "event \<Rightarrow> event option" where
  "schedule_event (Compile lr) = Some (Compile lr)"
| "schedule_event (Fit n i lr t) = Some (Fit n i lr t)"
| "schedule_event _ = None"

fun partition_event :: "event \<Rightarrow> event option" where
  "partition_event (FlowFromDirectory dg dir fl) = Some (FlowFromDirectory dg dir fl)"
| "partition_event _ = None"

definition persisted :: "event list \<Rightarrow> real list" where
  "persisted tr = List.map_filter persisted_auc tr"

definition schedule :: "event list \<Rightarrow> event list" where
  "schedule tr = List.map_filter schedule_event tr"

definition partitioning :: "event list \<Rightarrow> event list" where
  "partitioning tr = List.map_filter partition_event tr"

text \<open>The layers of the feature extractor the runtime loads, and the calls that configure
  and start training in a run that completes.\<close>

definition extractor_layers :: "'w engine \<Rightarrow> layer list" where
  "extractor_layers eng = (case MobileNetV3Small eng of Inl msg \<Rightarrow> [] | Inr ls \<Rightarrow> ls)"

definition planned_schedule :: "'w engine \<Rightarrow> args \<Rightarrow> event list" where
  "planned_schedule eng a =
     [Compile (learning_rate a),
      Fit (min 10 (epochs a div 2)) 0 (Some (learning_rate a)) 0] @
     (if epochs a > min 10 (epochs a div 2)
      then [Compile (learning_rate a / 10),
            Fit (epochs a) (min 10 (epochs a div 2)) (Some (learning_rate a / 10))
              (length (extractor_layers eng)
                 - length (slice_to (extractor_layers eng) (- fine_tune_layers a)))]
      else [])"

text \<open>The invariant of checkpointing: the persisted values increase strictly and none
  lies above the best-seen value.\<close>

fun below_best :: "real option \<Rightarrow> real \<Rightarrow> bool" where
  "below_best None v = False"
| "below_best (Some b) v = (v \<le> b)"

definition checkpoint_inv :: "callbacks \<Rightarrow> world \<Rightarrow> bool" where
  "checkpoint_inv cbs w =
     (sorted_wrt (<) (persisted (trace w)) \<and>
      (\<forall>x\<in>set (persisted (trace w)). below_best (best cbs) x))"

definition sample_results :: "real list" where
  "sample_results = [1 / 2, 9 / 10, 1 / 2, 1, 9 / 10]"

definition incomplete_fs :: filesystem where
  "incomplete_fs = [''./data'' \<mapsto> Dir, ''./data/normal'' \<mapsto> Dir]"

text \<open>What a computation ensures from a given world: \<open>Q\<close> of its value and the world it
  leaves when it returns, \<open>E\<close> of the exception and the world it leaves when it raises.\<close>

definition ensures ::
  "'a io \<Rightarrow> world \<Rightarrow> ('a \<Rightarrow> world \<Rightarrow> bool) \<Rightarrow> (py_error \<Rightarrow> world \<Rightarrow> bool) \<Rightarrow> bool" where
  "ensures m w Q E = (case m w of (Inl e, w1) \<Rightarrow> E e w1 | (Inr x, w1) \<Rightarrow> Q x w1)"

text \<open>A computation is quiet for an observation of events when it adds nothing to what
  is observed of the trace, whether it returns or raises.\<close>

definition quiet :: "(event \<Rightarrow> 'b option) \<Rightarrow> 'a io \<Rightarrow> bool" where
  "quiet f m = (\<forall>w. List.map_filter f (trace (snd (m w))) = List.map_filter f (trace w))"

section \<open>Verified properties\<close>

subsection \<open>Layer selection for fine-tuning\<close>

lemma slice_to_neg_zero: "slice_to xs 0 = []"
  by (simp add: slice_to_def)

lemma slice_to_beyond: "int (length xs) < k \<Longrightarrow> slice_to xs (- k) = []"
  by (simp add: slice_to_def Let_def)

lemma filter_trainable_all:
  "filter trainable (map (set_trainable True) ls) = map (set_trainable True) ls"
  by (induction ls) (simp_all add: set_trainable_def)

text \<open>
  C10. With \<^verbatim>\<open>fine_tune_layers = 0\<close> the slice \<^verbatim>\<open>base_model.layers[:-0]\<close> is empty:
  \<^verbatim>\<open>fine_tune_model\<close> freezes no layer, every layer of the feature extractor is left
  trainable, and the count it prints is the number of layers of the extractor.
\<close>

theorem fine_tune_zero_unfreezes_all:
  "slice_to (map (set_trainable True) (base_layers model)) (- 0) = []
   \<and> base_layers (fst (fine_tune_model model 0 lr w))
       = map (set_trainable True) (base_layers model)
   \<and> trace (snd (fine_tune_model model 0 lr w))
       = trace w @ [Compile (lr / 10), Print (FineTuningEnabled (length (base_layers model)))]"
  by (simp add: fine_tune_model_def Let_def slice_to_neg_zero emit_def filter_trainable_all)

text \<open>
  C7. When \<^verbatim>\<open>fine_tune_layers\<close> is strictly greater than the number of layers of the
  feature extractor, the slice is clamped to the empty list: \<^verbatim>\<open>fine_tune_model\<close>
  returns (no indexing error), freezes no layer and leaves every layer of the extractor
  trainable.
\<close>

theorem fine_tune_beyond_layer_count:
  assumes "int (length (base_layers model)) < k"
  shows "base_layers (fst (fine_tune_model model k lr w))
           = map (set_trainable True) (base_layers model)
   \<and> filter (\<lambda>l. \<not> trainable l) (base_layers (fst (fine_tune_model model k lr w))) = []
   \<and> trace (snd (fine_tune_model model k lr w))
       = trace w @ [Compile (lr / 10), Print (FineTuningEnabled (length (base_layers model)))]"
  using assms
  by (simp add: fine_tune_model_def Let_def slice_to_beyond emit_def filter_trainable_all
      set_trainable_def)

theorem fine_tune_beyond_layer_count_witness:
  "int (length (base_layers sample_model)) < 5
   \<and> base_layers (fst (fine_tune_model sample_model 5 (1 / 1000) sample_world))
       = map (set_trainable True) (base_layers sample_model)
   \<and> filter (\<lambda>l. \<not> trainable l)
        (base_layers (fst (fine_tune_model sample_model 5 (1 / 1000) sample_world))) = []
   \<and> trace (snd (fine_tune_model sample_model 5 (1 / 1000) sample_world))
       = trace sample_world @
           [Compile ((1 / 1000) / 10),
            Print (FineTuningEnabled (length (base_layers sample_model)))]"
proof -
  have h: "int (length (base_layers sample_model)) < 5"
    by (simp add: sample_model_def sample_layers_def)
  show ?thesis
    by (rule conjI [OF h fine_tune_beyond_layer_count [OF h]])
qed

subsection \<open>Computations\<close>

lemma trace_emit [simp]: "trace (emit e w) = trace w @ [e]"
  by (simp add: emit_def)

lemma files_emit [simp]: "files (emit e w) = files w"
  by (simp add: emit_def)

lemma trace_store [simp]: "trace (store p c w) = trace w"
  by (simp add: store_def)

lemma files_store [simp]: "files (store p c w) = (files w)(p \<mapsto> File c)"
  by (simp add: store_def)

lemma and_then_succeed [simp]: "and_then (succeed x) f w = f x w"
  by (simp add: and_then_def succeed_def)

lemma and_then_say [simp]: "and_then (say e) f w = f () (emit e w)"
  by (simp add: and_then_def say_def)

lemma and_then_always [simp]: "and_then (always g) f w = f (fst (g w)) (snd (g w))"
  by (simp add: and_then_def always_def split_beta)

lemma and_then_runtime [simp]:
  "and_then (runtime r) f w
     = (case r of Inl msg \<Rightarrow> (Inl (RuntimeFailure msg), w) | Inr x \<Rightarrow> f x w)"
  by (simp add: and_then_def runtime_def split: sum.splits)

lemma and_then_attempt [simp]:
  "and_then (attempt r) f w = (case r of Inl e \<Rightarrow> (Inl e, w) | Inr x \<Rightarrow> f x w)"
  by (simp add: and_then_def attempt_def split: sum.splits)

lemma and_then_with_files [simp]: "and_then (with_files g) f w = and_then (g (files w)) f w"
  by (simp add: and_then_def with_files_def)

lemma and_then_returns:
  "m w = (Inr x, w1) \<Longrightarrow> and_then m f w = f x w1"
  by (simp add: and_then_def)

lemma and_then_raises:
  "m w = (Inl e, w1) \<Longrightarrow> and_then m f w = (Inl e, w1)"
  by (simp add: and_then_def)

text \<open>The rules of \<open>ensures\<close>.\<close>

lemma ensures_and_then [simp]:
  "ensures (and_then m f) w Q E = ensures m w (\<lambda>x w1. ensures (f x) w1 Q E) E"
  by (simp add: ensures_def and_then_def split: prod.splits sum.splits)

lemma ensures_succeed [simp]: "ensures (succeed x) w Q E = Q x w"
  by (simp add: ensures_def succeed_def)

lemma ensures_say [simp]: "ensures (say e) w Q E = Q () (emit e w)"
  by (simp add: ensures_def say_def)

lemma ensures_always [simp]: "ensures (always g) w Q E = Q (fst (g w)) (snd (g w))"
  by (simp add: ensures_def always_def split_beta)

lemma ensures_runtime [simp]:
  "ensures (runtime r) w Q E
     = (case r of Inl msg \<Rightarrow> E (RuntimeFailure msg) w | Inr x \<Rightarrow> Q x w)"
  by (simp add: ensures_def runtime_def split: sum.splits)

lemma ensures_attempt [simp]:
  "ensures (attempt r) w Q E = (case r of Inl e \<Rightarrow> E e w | Inr x \<Rightarrow> Q x w)"
  by (simp add: ensures_def attempt_def split: sum.splits)

lemma ensures_with_files [simp]: "ensures (with_files f) w Q E = ensures (f (files w)) w Q E"
  by (simp add: ensures_def with_files_def)

lemma ensures_mono:
  assumes "ensures m w Q' E'"
      and "\<And>x w1. Q' x w1 \<Longrightarrow> Q x w1"
      and "\<And>e w1. E' e w1 \<Longrightarrow> E e w1"
  shows "ensures m w Q E"
  using assms by (auto simp: ensures_def split: prod.splits sum.splits)

lemma ensures_world:
  "ensures m w (\<lambda>x. R) (\<lambda>e. R) \<Longrightarrow> R (snd (m w))"
  by (auto simp: ensures_def split: prod.splits sum.splits)

lemma ensures_returned:
  "ensures m w Q E \<Longrightarrow> fst (m w) = Inr x \<Longrightarrow> Q x (snd (m w))"
  by (auto simp: ensures_def split: prod.splits sum.splits)

lemma ensures_raised:
  "ensures m w Q E \<Longrightarrow> fst (m w) = Inl e \<Longrightarrow> E e (snd (m w))"
  by (auto simp: ensures_def split: prod.splits sum.splits)

lemma ensures_result:
  "ensures m w (\<lambda>x w1. m w = (Inr x, w1)) (\<lambda>e w1. m w = (Inl e, w1))"
  by (auto simp: ensures_def split: prod.splits sum.splits)

subsection \<open>Evaluation\<close>

lemma dict_zip_five:
  "dict_zip [k1, k2, k3, k4, k5] [v1, v2, v3, v4, v5]
     = [k1 \<mapsto> v1, k2 \<mapsto> v2, k3 \<mapsto> v3, k4 \<mapsto> v4, k5 \<mapsto> v5]"
  by (simp add: dict_zip_def)

lemma evaluate_model_named:
  assumes "metrics_names eng model = [''loss'', ''accuracy'', ''precision'', ''recall'', ''auc'']"
      and "evaluate eng (files w) model gen = Inr [l, a, p, r, u]"
  shows "evaluate_model eng model gen w =
     (Inr [''loss'' \<mapsto> l, ''accuracy'' \<mapsto> a, ''precision'' \<mapsto> p, ''recall'' \<mapsto> r,
           ''auc'' \<mapsto> u],
      w\<lparr>trace := trace w @
          [Print Evaluating, Evaluate, Print FinalMetricsHeader,
           Print (MetricLine ''Loss'' l), Print (MetricLine ''Accuracy'' a),
           Print (MetricLine ''Precision'' p), Print (MetricLine ''Recall'' r),
           Print (MetricLine ''AUC'' u)] @
          (if p + r > 0 then [Print (F1Line (2 * (p * r) / (p + r)))] else [])\<rparr>)"
  using assms
  by (simp add: evaluate_model_def Let_def dict_zip_five getitem_def truediv_def emit_def
      succeed_def and_then_def say_def runtime_def attempt_def with_files_def)

lemma print_lines_no_division_fault:
  "ensures (print_lines m ks) w (\<lambda>x w1. True) (\<lambda>e w1. e \<noteq> ZeroDivisionError)"
  by (induction m ks w rule: print_lines.induct)
     (auto simp: ensures_def getitem_def split: option.splits)

lemma evaluate_model_no_division_fault:
  "fst (evaluate_model eng model gen w) \<noteq> Inl ZeroDivisionError"
proof -
  have "ensures (evaluate_model eng model gen) w (\<lambda>x w1. True) (\<lambda>e w1. e \<noteq> ZeroDivisionError)"
    unfolding evaluate_model_def
    apply (simp add: Let_def split: sum.splits)
    apply (intro allI impI ensures_mono [OF print_lines_no_division_fault])
     apply (simp_all add: getitem_def truediv_def split: option.splits)
    done
  then show ?thesis
    by (auto simp: ensures_def split: prod.splits sum.splits)
qed

lemma five_keys_dom:
  "dom [''loss'' \<mapsto> l, ''accuracy'' \<mapsto> a, ''precision'' \<mapsto> p, ''recall'' \<mapsto> r,
        ''auc'' \<mapsto> (u::real)]
    = {''loss'', ''accuracy'', ''precision'', ''recall'', ''auc''}"
  by auto

text \<open>
  C2, as stated, fails: with precision \<open>1/2\<close> and recall \<open>1\<close> the sum is positive, yet the
  record \<^verbatim>\<open>evaluate_model\<close> returns has exactly the five keys of the runtime and none of
  its values is the F1 score \<open>2/3\<close>.
\<close>

theorem evaluate_model_f1_in_record_counterexample:
  "(1 / 2 + 1 > (0::real))
   \<and> fst (evaluate_model (sample_engine None [1 / 2, 9 / 10, 1 / 2, 1, 9 / 10]) sample_model
            sample_generator sample_world)
       = Inr [''loss'' \<mapsto> 1 / 2, ''accuracy'' \<mapsto> 9 / 10, ''precision'' \<mapsto> 1 / 2,
              ''recall'' \<mapsto> 1, ''auc'' \<mapsto> 9 / 10]
   \<and> dom [''loss'' \<mapsto> 1 / 2, ''accuracy'' \<mapsto> 9 / 10, ''precision'' \<mapsto> 1 / 2,
           ''recall'' \<mapsto> 1, ''auc'' \<mapsto> (9 / 10 :: real)]
       = {''loss'', ''accuracy'', ''precision'', ''recall'', ''auc''}
   \<and> 2 * (1 / 2 * 1) / (1 / 2 + 1)
       \<notin> ran [''loss'' \<mapsto> 1 / 2, ''accuracy'' \<mapsto> 9 / 10, ''precision'' \<mapsto> 1 / 2,
              ''recall'' \<mapsto> 1, ''auc'' \<mapsto> (9 / 10 :: real)]"
proof (intro conjI)
  show "1 / 2 + 1 > (0::real)" by simp
  show "fst (evaluate_model (sample_engine None [1 / 2, 9 / 10, 1 / 2, 1, 9 / 10]) sample_model
            sample_generator sample_world)
       = Inr [''loss'' \<mapsto> 1 / 2, ''accuracy'' \<mapsto> 9 / 10, ''precision'' \<mapsto> 1 / 2,
              ''recall'' \<mapsto> 1, ''auc'' \<mapsto> 9 / 10]"
    by (subst evaluate_model_named
          [where l = "1 / 2" and a = "9 / 10" and p = "1 / 2" and r = 1 and u = "9 / 10"])
       (simp_all add: sample_engine_def)
  show "dom [''loss'' \<mapsto> 1 / 2, ''accuracy'' \<mapsto> 9 / 10, ''precision'' \<mapsto> 1 / 2,
           ''recall'' \<mapsto> 1, ''auc'' \<mapsto> (9 / 10 :: real)]
       = {''loss'', ''accuracy'', ''precision'', ''recall'', ''auc''}"
    by (rule five_keys_dom)
  show "2 * (1 / 2 * 1) / (1 / 2 + 1)
       \<notin> ran [''loss'' \<mapsto> 1 / 2, ''accuracy'' \<mapsto> 9 / 10, ''precision'' \<mapsto> 1 / 2,
              ''recall'' \<mapsto> 1, ''auc'' \<mapsto> (9 / 10 :: real)]"
    by (auto simp: ran_def split: if_splits)
qed

text \<open>
  C2, amended. When the runtime names its results loss, accuracy, precision, recall and
  auc, \<^verbatim>\<open>evaluate_model\<close> returns the record pairing these five names with the five
  results and nothing else; the F1 score \<open>2 * (P * R) / (P + R)\<close> is computed and printed
  exactly when \<open>P + R > 0\<close>, and it is never stored in the returned record.
\<close>

theorem evaluate_model_record:
  assumes "metrics_names eng model = [''loss'', ''accuracy'', ''precision'', ''recall'', ''auc'']"
      and "evaluate eng (files w) model gen = Inr [l, a, p, r, u]"
  shows "fst (evaluate_model eng model gen w)
           = Inr [''loss'' \<mapsto> l, ''accuracy'' \<mapsto> a, ''precision'' \<mapsto> p, ''recall'' \<mapsto> r,
                  ''auc'' \<mapsto> u]
   \<and> dom [''loss'' \<mapsto> l, ''accuracy'' \<mapsto> a, ''precision'' \<mapsto> p, ''recall'' \<mapsto> r, ''auc'' \<mapsto> u]
       = {''loss'', ''accuracy'', ''precision'', ''recall'', ''auc''}
   \<and> trace (snd (evaluate_model eng model gen w))
       = trace w @
          [Print Evaluating, Evaluate, Print FinalMetricsHeader,
           Print (MetricLine ''Loss'' l), Print (MetricLine ''Accuracy'' a),
           Print (MetricLine ''Precision'' p), Print (MetricLine ''Recall'' r),
           Print (MetricLine ''AUC'' u)] @
          (if p + r > 0 then [Print (F1Line (2 * (p * r) / (p + r)))] else [])
   \<and> files (snd (evaluate_model eng model gen w)) = files w"
  using five_keys_dom [of l a p r u]
  by (simp add: evaluate_model_named [OF assms])

theorem evaluate_model_record_witness:
  "metrics_names (sample_engine None [1 / 2, 9 / 10, 1 / 2, 1, 9 / 10]) sample_model
     = [''loss'', ''accuracy'', ''precision'', ''recall'', ''auc'']
   \<and> evaluate (sample_engine None [1 / 2, 9 / 10, 1 / 2, 1, 9 / 10]) (files sample_world)
        sample_model sample_generator = Inr [1 / 2, 9 / 10, 1 / 2, 1, 9 / 10]
   \<and> trace (snd (evaluate_model (sample_engine None [1 / 2, 9 / 10, 1 / 2, 1, 9 / 10])
        sample_model sample_generator sample_world))
       = [Print Evaluating, Evaluate, Print FinalMetricsHeader,
          Print (MetricLine ''Loss'' (1 / 2)), Print (MetricLine ''Accuracy'' (9 / 10)),
          Print (MetricLine ''Precision'' (1 / 2)), Print (MetricLine ''Recall'' 1),
          Print (MetricLine ''AUC'' (9 / 10)), Print (F1Line (2 / 3))]"
proof -
  let ?eng = "sample_engine None [1 / 2, 9 / 10, 1 / 2, 1, 9 / 10]"
  have n: "metrics_names ?eng sample_model
             = [''loss'', ''accuracy'', ''precision'', ''recall'', ''auc'']"
    by (simp add: sample_engine_def)
  have r: "evaluate ?eng (files sample_world) sample_model sample_generator
             = Inr [1 / 2, 9 / 10, 1 / 2, 1, 9 / 10]"
    by (simp add: sample_engine_def)
  show ?thesis
    using n r evaluate_model_record [OF n r]
    by (simp add: sample_world_def)
qed

text \<open>
  C8. The F1 computation is total. Whatever the runtime returns, \<^verbatim>\<open>evaluate_model\<close>
  raises no division fault (what it can raise is a \<open>KeyError\<close> for a metric the runtime
  did not name, or the exception of the runtime's own \<^verbatim>\<open>evaluate\<close>, which is a
  \<open>RuntimeFailure\<close> here); and when the runtime names its five results and \<open>P + R = 0\<close>,
  the call completes, prints the five metrics and no F1 line, and returns the record of
  the five metrics, which holds no F1.
\<close>

theorem f1_total_when_degenerate:
  assumes "metrics_names eng model = [''loss'', ''accuracy'', ''precision'', ''recall'', ''auc'']"
      and "evaluate eng (files w) model gen = Inr [l, a, p, r, u]"
      and "p + r = 0"
  shows "fst (evaluate_model eng' model' gen' w') \<noteq> Inl ZeroDivisionError
   \<and> fst (evaluate_model eng model gen w)
       = Inr [''loss'' \<mapsto> l, ''accuracy'' \<mapsto> a, ''precision'' \<mapsto> p, ''recall'' \<mapsto> r,
              ''auc'' \<mapsto> u]
   \<and> dom [''loss'' \<mapsto> l, ''accuracy'' \<mapsto> a, ''precision'' \<mapsto> p, ''recall'' \<mapsto> r, ''auc'' \<mapsto> u]
       = {''loss'', ''accuracy'', ''precision'', ''recall'', ''auc''}
   \<and> trace (snd (evaluate_model eng model gen w))
       = trace w @
          [Print Evaluating, Evaluate, Print FinalMetricsHeader,
           Print (MetricLine ''Loss'' l), Print (MetricLine ''Accuracy'' a),
           Print (MetricLine ''Precision'' p), Print (MetricLine ''Recall'' r),
           Print (MetricLine ''AUC'' u)]"
  using assms(3) five_keys_dom [of l a p r u]
  by (simp add: evaluate_model_named [OF assms(1,2)] evaluate_model_no_division_fault)

theorem f1_total_when_degenerate_witness:
  "metrics_names (sample_engine None [7 / 10, 1 / 2, 0, 0, 1 / 2]) sample_model
     = [''loss'', ''accuracy'', ''precision'', ''recall'', ''auc'']
   \<and> evaluate (sample_engine None [7 / 10, 1 / 2, 0, 0, 1 / 2]) (files sample_world)
        sample_model sample_generator = Inr [7 / 10, 1 / 2, 0, 0, 1 / 2]
   \<and> (0::real) + 0 = 0
   \<and> fst (evaluate_model (sample_engine None [7 / 10, 1 / 2, 0, 0, 1 / 2]) sample_model
            sample_generator sample_world)
       = Inr [''loss'' \<mapsto> 7 / 10, ''accuracy'' \<mapsto> 1 / 2, ''precision'' \<mapsto> 0, ''recall'' \<mapsto> 0,
              ''auc'' \<mapsto> 1 / 2]
   \<and> trace (snd (evaluate_model (sample_engine None [7 / 10, 1 / 2, 0, 0, 1 / 2])
        sample_model sample_generator sample_world))
       = [Print Evaluating, Evaluate, Print FinalMetricsHeader,
          Print (MetricLine ''Loss'' (7 / 10)), Print (MetricLine ''Accuracy'' (1 / 2)),
          Print (MetricLine ''Precision'' 0), Print (MetricLine ''Recall'' 0),
          Print (MetricLine ''AUC'' (1 / 2))]"
proof -
  let ?eng = "sample_engine None [7 / 10, 1 / 2, 0, 0, 1 / 2]"
  have n: "metrics_names ?eng sample_model
             = [''loss'', ''accuracy'', ''precision'', ''recall'', ''auc'']"
    by (simp add: sample_engine_def)
  have r: "evaluate ?eng (files sample_world) sample_model sample_generator
             = Inr [7 / 10, 1 / 2, 0, 0, 1 / 2]"
    by (simp add: sample_engine_def)
  have z: "(0::real) + 0 = 0" by simp
  show ?thesis
    using n r f1_total_when_degenerate [OF n r z, of ?eng sample_model sample_generator
        sample_world]
    by (simp add: sample_world_def)
qed

subsection \<open>Traces of the stages\<close>

lemma map_filter_append:
  "List.map_filter f (xs @ ys) = List.map_filter f xs @ List.map_filter f ys"
  by (simp add: List.map_filter_def)

lemma ensuresI:
  assumes "\<And>x w1. m w = (Inr x, w1) \<Longrightarrow> Q x w1"
      and "\<And>e w1. m w = (Inl e, w1) \<Longrightarrow> E e w1"
  shows "ensures m w Q E"
  using assms by (auto simp: ensures_def split: prod.splits sum.splits)

lemma quietI: "(\<And>w. trace (snd (m w)) = trace w) \<Longrightarrow> quiet f m"
  by (simp add: quiet_def)

lemma quietD:
  "quiet f m \<Longrightarrow> List.map_filter f (trace (snd (m w))) = List.map_filter f (trace w)"
  by (simp add: quiet_def)

lemma quiet_and_then:
  assumes "quiet f m" and "\<And>x. quiet f (g x)"
  shows "quiet f (and_then m g)"
  unfolding quiet_def
proof
  fix w
  show "List.map_filter f (trace (snd (and_then m g w))) = List.map_filter f (trace w)"
  proof (cases "m w")
    case (Pair r w1)
    then have w1: "List.map_filter f (trace w1) = List.map_filter f (trace w)"
      using quietD [OF assms(1), of w] by simp
    show ?thesis
    proof (cases r)
      case (Inl e)
      with Pair w1 show ?thesis by (simp add: and_then_def)
    next
      case (Inr x)
      with Pair w1 quietD [OF assms(2), of x w1] show ?thesis by (simp add: and_then_def)
    qed
  qed
qed

lemma quiet_succeed: "quiet f (succeed x)"
  by (simp add: quiet_def succeed_def)

lemma quiet_attempt: "quiet f (attempt r)"
  by (simp add: quiet_def attempt_def)

lemma quiet_runtime: "quiet f (runtime r)"
  by (simp add: quiet_def runtime_def split: sum.splits)

lemma quiet_say: "f e = None \<Longrightarrow> quiet f (say e)"
  by (simp add: quiet_def say_def map_filter_append List.map_filter_def)

lemma quiet_with_files: "(\<And>fs. quiet f (g fs)) \<Longrightarrow> quiet f (with_files g)"
  by (simp add: quiet_def with_files_def)

lemma quiet_if: "quiet f a \<Longrightarrow> quiet f b \<Longrightarrow> quiet f (if c then a else b)"
  by simp

lemma quiet_case_prod: "(\<And>a b. quiet f (g a b)) \<Longrightarrow> quiet f (case p of (a, b) \<Rightarrow> g a b)"
  by (simp split: prod.splits)

lemma quiet_case_option:
  "quiet f a \<Longrightarrow> (\<And>x. quiet f (g x)) \<Longrightarrow> quiet f (case v of None \<Rightarrow> a | Some x \<Rightarrow> g x)"
  by (simp split: option.splits)

lemma quiet_case_node:
  "quiet f a \<Longrightarrow> (\<And>x. quiet f (g x)) \<Longrightarrow> quiet f (case v of Dir \<Rightarrow> a | File x \<Rightarrow> g x)"
  by (simp split: node.splits)

lemma quiet_store: "quiet f (always (\<lambda>w. (x, store p c w)))"
  by (simp add: quiet_def always_def)

lemmas quiet_intros =
  quiet_and_then quiet_succeed quiet_attempt quiet_runtime quiet_say quiet_with_files
  quiet_if quiet_case_prod quiet_case_option quiet_case_node quiet_store

text \<open>The file operations print nothing.\<close>

lemma trace_makedirs [simp]: "trace (snd (makedirs p w)) = trace w"
  by (simp add: makedirs_def Let_def split: prod.splits sum.splits option.splits node.splits)

lemma trace_write_file [simp]: "trace (snd (write_file p c w)) = trace w"
  by (simp add: write_file_def split: option.splits node.splits)

lemma quiet_makedirs: "quiet f (makedirs p)"
  by (rule quietI) simp

lemma quiet_write_file: "quiet f (write_file p c)"
  by (rule quietI) simp

lemma quiet_save_model: "quiet f (save_model eng model p)"
  unfolding save_model_def by (intro quiet_intros quiet_write_file)

lemma quiet_populate_file: "quiet f (populate_file lib p buf l)"
  unfolding populate_file_def by (intro quiet_intros)

lemma quiet_copy_file: "quiet f (copy_file src dst)"
  by (rule quietI) (simp add: copy_file_def split: option.splits node.splits)

lemma write_file_result:
  "write_file p c w = (Inr (), store p c w) \<or> (\<exists>e. write_file p c w = (Inl e, w))"
  by (simp add: write_file_def split: option.splits node.splits)

lemma ensures_write_file:
  assumes "Q () (store p c w)" and "\<And>e. E e w"
  shows "ensures (write_file p c) w Q E"
  using write_file_result [of p c w] assms by (auto simp: ensures_def)

lemma path_join_relative:
  "b \<noteq> [] \<Longrightarrow> hd b \<noteq> CHR ''/'' \<Longrightarrow>
   path_join a b = (if a = [] \<or> last a = CHR ''/'' then a else a @ ''/'') @ b"
  by (simp add: path_join_def)

lemma path_join_eq_iff:
  "b \<noteq> [] \<Longrightarrow> hd b \<noteq> CHR ''/'' \<Longrightarrow> c \<noteq> [] \<Longrightarrow> hd c \<noteq> CHR ''/'' \<Longrightarrow>
   (path_join a b = path_join a c) = (b = c)"
  by (simp add: path_join_relative)

text \<open>The three observations distribute over the trace.\<close>

lemma persisted_simps [simp]:
  "persisted [] = []"
  "persisted (e # es) = (case persisted_auc e of None \<Rightarrow> persisted es | Some v \<Rightarrow> v # persisted es)"
  "persisted (xs @ ys) = persisted xs @ persisted ys"
  by (simp_all add: persisted_def map_filter_append split: option.split)

lemma schedule_simps [simp]:
  "schedule [] = []"
  "schedule (e # es) = (case schedule_event e of None \<Rightarrow> schedule es | Some y \<Rightarrow> y # schedule es)"
  "schedule (xs @ ys) = schedule xs @ schedule ys"
  by (simp_all add: schedule_def map_filter_append split: option.split)

lemma partitioning_simps [simp]:
  "partitioning [] = []"
  "partitioning (e # es)
     = (case partition_event e of None \<Rightarrow> partitioning es | Some y \<Rightarrow> y # partitioning es)"
  "partitioning (xs @ ys) = partitioning xs @ partitioning ys"
  by (simp_all add: partitioning_def map_filter_append split: option.split)

text \<open>The checkpointing loop emits only checkpoint events, and keeps the invariant.\<close>

lemma checkpoint_epochs_step:
  "checkpoint_epochs eng model (l # ls) cbs =
     (if improved (val_auc l) (best cbs)
      then and_then (save_model eng (model\<lparr>weights := epoch_weights l\<rparr>) (checkpoint_path cbs))
             (\<lambda>_. and_then (say (SaveCheckpoint (checkpoint_path cbs) (epoch l) (val_auc l)))
             (\<lambda>_. checkpoint_epochs eng model ls (cbs\<lparr>best := Some (val_auc l)\<rparr>)))
      else checkpoint_epochs eng model ls cbs)"
  by (rule ext) (simp add: and_then_def say_def split: prod.splits sum.splits)

lemma checkpoint_epochs_nil: "checkpoint_epochs eng model [] cbs = succeed cbs"
  by (rule ext) (simp add: succeed_def)

lemma quiet_checkpoint_epochs:
  assumes "\<And>p e v. f (SaveCheckpoint p e v) = None"
  shows "quiet f (checkpoint_epochs eng model logs cbs)"
proof (induction logs arbitrary: cbs)
  case Nil
  show ?case unfolding checkpoint_epochs_nil by (rule quiet_succeed)
next
  case (Cons l ls)
  show ?case
    unfolding checkpoint_epochs_step
    by (intro quiet_intros quiet_save_model Cons.IH assms)
qed

lemma trace_save_model [simp]: "trace (snd (save_model eng model p w)) = trace w"
  by (simp add: save_model_def and_then_def runtime_def split: sum.splits)

lemma sorted_wrt_snoc_less:
  "sorted_wrt (<) (xs @ [v::real]) = (sorted_wrt (<) xs \<and> (\<forall>x\<in>set xs. x < v))"
  by (simp add: sorted_wrt_append)

lemma checkpoint_inv_saved:
  assumes "checkpoint_inv cbs w" and "improved v (best cbs)" and "trace w1 = trace w"
  shows "checkpoint_inv (cbs\<lparr>best := Some v\<rparr>) (emit (SaveCheckpoint p e v) w1)"
proof -
  have lt: "\<forall>x\<in>set (persisted (trace w)). x < v"
  proof
    fix x assume "x \<in> set (persisted (trace w))"
    with assms(1) have "below_best (best cbs) x" by (simp add: checkpoint_inv_def)
    with assms(2) show "x < v" by (cases "best cbs") auto
  qed
  with assms(1,3) show ?thesis
    by (auto simp: checkpoint_inv_def sorted_wrt_snoc_less)
qed

lemma checkpoint_inv_sorted:
  "checkpoint_inv cbs w \<Longrightarrow> sorted_wrt (<) (persisted (trace w))"
  by (simp add: checkpoint_inv_def)

lemma checkpoint_inv_start: "persisted (trace w) = [] \<Longrightarrow> checkpoint_inv cbs w"
  by (simp add: checkpoint_inv_def)

lemma checkpoint_inv_trace:
  "persisted (trace w1) = persisted (trace w) \<Longrightarrow> checkpoint_inv cbs w1 = checkpoint_inv cbs w"
  by (simp add: checkpoint_inv_def)

lemma checkpoint_epochs_invariant:
  assumes "checkpoint_inv cbs w"
  shows "ensures (checkpoint_epochs eng model logs cbs) w
           (\<lambda>cbs1 w1. checkpoint_inv cbs1 w1)
           (\<lambda>e w1. sorted_wrt (<) (persisted (trace w1)))"
  using assms
proof (induction logs arbitrary: cbs w)
  case Nil
  then show ?case by (simp add: checkpoint_epochs_nil)
next
  case (Cons l ls)
  show ?case
  proof (cases "improved (val_auc l) (best cbs)")
    case False
    then show ?thesis using Cons.IH [OF Cons.prems] by (simp add: checkpoint_epochs_step)
  next
    case True
    let ?save = "save_model eng (model\<lparr>weights := epoch_weights l\<rparr>) (checkpoint_path cbs)"
    have "ensures ?save w
            (\<lambda>x w1. ensures (checkpoint_epochs eng model ls (cbs\<lparr>best := Some (val_auc l)\<rparr>))
                       (emit (SaveCheckpoint (checkpoint_path cbs) (epoch l) (val_auc l)) w1)
                       (\<lambda>cbs1 w1. checkpoint_inv cbs1 w1)
                       (\<lambda>e w1. sorted_wrt (<) (persisted (trace w1))))
            (\<lambda>e w1. sorted_wrt (<) (persisted (trace w1)))"
    proof (rule ensuresI)
      fix x w1 assume "?save w = (Inr x, w1)"
      then have t: "trace w1 = trace w"
        using trace_save_model [of eng "model\<lparr>weights := epoch_weights l\<rparr>" "checkpoint_path cbs" w]
        by simp
      show "ensures (checkpoint_epochs eng model ls (cbs\<lparr>best := Some (val_auc l)\<rparr>))
              (emit (SaveCheckpoint (checkpoint_path cbs) (epoch l) (val_auc l)) w1)
              (\<lambda>cbs1 w1. checkpoint_inv cbs1 w1)
              (\<lambda>e w1. sorted_wrt (<) (persisted (trace w1)))"
        by (rule Cons.IH [OF checkpoint_inv_saved [OF Cons.prems True t]])
    next
      fix e w1 assume "?save w = (Inl e, w1)"
      then have t: "trace w1 = trace w"
        using trace_save_model [of eng "model\<lparr>weights := epoch_weights l\<rparr>" "checkpoint_path cbs" w]
        by simp
      show "sorted_wrt (<) (persisted (trace w1))"
        unfolding t by (rule checkpoint_inv_sorted [OF Cons.prems])
    qed
    with True show ?thesis by (simp add: checkpoint_epochs_step)
  qed
qed

text \<open>One call of \<^verbatim>\<open>fit\<close>.\<close>

lemma fit_observed:
  assumes "\<And>p e v. f (SaveCheckpoint p e v) = None"
  shows "List.map_filter f (trace (snd (fit eng model tg vg cbs n i w)))
           = List.map_filter f (trace w) @
             List.map_filter f [Fit n i (map_option optimizer_lr (compiled model))
               (length (filter trainable (base_layers model)))]"
proof -
  let ?e = "Fit n i (map_option optimizer_lr (compiled model))
              (length (filter trainable (base_layers model)))"
  let ?rest = "with_files (\<lambda>fs.
       let (logs, final) = train eng fs model tg vg cbs n i
       in and_then (checkpoint_epochs eng model logs cbs) (\<lambda>cbs1.
          and_then (runtime final) (\<lambda>final_weights.
          succeed (model\<lparr>weights := final_weights\<rparr>, cbs1))))"
  have q: "quiet f ?rest"
    unfolding Let_def
    by (intro quiet_intros quiet_checkpoint_epochs assms)
  have "fit eng model tg vg cbs n i w = ?rest (emit ?e w)"
    by (simp add: fit_def and_then_def say_def)
  then show ?thesis
    using quietD [OF q, of "emit ?e w"] by (simp add: map_filter_append)
qed

lemma fit_schedule:
  "schedule (trace (snd (fit eng model tg vg cbs n i w)))
     = schedule (trace w) @
       [Fit n i (map_option optimizer_lr (compiled model))
          (length (filter trainable (base_layers model)))]"
  using fit_observed [of schedule_event eng model tg vg cbs n i w]
  by (simp add: schedule_def List.map_filter_def)

lemma fit_spec:
  "ensures (fit eng model tg vg cbs n i) w
     (\<lambda>x w1. base_layers (fst x) = base_layers model \<and> compiled (fst x) = compiled model
              \<and> (checkpoint_inv cbs w \<longrightarrow> checkpoint_inv (snd x) w1))
     (\<lambda>e w1. checkpoint_inv cbs w \<longrightarrow> sorted_wrt (<) (persisted (trace w1)))"
proof -
  let ?e = "Fit n i (map_option optimizer_lr (compiled model))
              (length (filter trainable (base_layers model)))"
  have start: "checkpoint_inv cbs w \<Longrightarrow> checkpoint_inv cbs (emit ?e w)"
    by (simp add: checkpoint_inv_def)
  have c: "ensures (checkpoint_epochs eng model logs cbs) (emit ?e w)
             (\<lambda>cbs1 w1. checkpoint_inv cbs w \<longrightarrow> checkpoint_inv cbs1 w1)
             (\<lambda>e w1. checkpoint_inv cbs w \<longrightarrow> sorted_wrt (<) (persisted (trace w1)))" for logs
  proof (cases "checkpoint_inv cbs w")
    case True
    show ?thesis
      by (rule ensures_mono [OF checkpoint_epochs_invariant [OF start [OF True]]]) simp_all
  next
    case False
    then show ?thesis by (simp add: ensures_def split: prod.splits sum.splits)
  qed
  show ?thesis
    unfolding fit_def
    apply (simp add: Let_def split_beta)
    apply (rule ensures_mono [OF c])
     apply (simp_all split: sum.splits)
    apply (auto dest: checkpoint_inv_sorted)
    done
qed

text \<open>Fine-tuning: the number of layers left trainable.\<close>

lemma length_slice_to:
  "length (slice_to (map f xs) s) = length (slice_to xs s)"
  by (simp add: slice_to_def Let_def)

lemma filter_trainable_none:
  "filter trainable (map (set_trainable False) ls) = []"
  by (induction ls) (simp_all add: set_trainable_def)

lemma fine_tune_model_result:
  "fine_tune_model model k lr w =
     (model\<lparr>base_layers :=
         map (set_trainable False) (slice_to (map (set_trainable True) (base_layers model)) (- k))
         @ drop (length (slice_to (base_layers model) (- k)))
             (map (set_trainable True) (base_layers model)),
       compiled := Some (compile_with (lr / 10))\<rparr>,
      w\<lparr>trace := trace w @
         [Compile (lr / 10),
          Print (FineTuningEnabled
            (length (base_layers model) - length (slice_to (base_layers model) (- k))))]\<rparr>)"
  by (simp add: fine_tune_model_def Let_def emit_def length_slice_to filter_trainable_none
      filter_trainable_all drop_map)

lemma fine_tune_model_schedule:
  "schedule (trace (snd (fine_tune_model model k lr w))) = schedule (trace w) @ [Compile (lr / 10)]"
  by (simp add: fine_tune_model_result)

lemma fine_tune_model_persisted:
  "persisted (trace (snd (fine_tune_model model k lr w))) = persisted (trace w)"
  by (simp add: fine_tune_model_result)

lemma fine_tune_model_trainable:
  "length (filter trainable (base_layers (fst (fine_tune_model model k lr w))))
     = length (base_layers model) - length (slice_to (base_layers model) (- k))"
  by (simp add: fine_tune_model_result filter_trainable_none filter_trainable_all drop_map)

lemma fine_tune_model_compiled:
  "compiled (fst (fine_tune_model model k lr w)) = Some (compile_with (lr / 10))"
  by (simp add: fine_tune_model_result)

text \<open>The stages other than \<^verbatim>\<open>fit\<close> and the compilations emit only messages and the
  calls \<open>FlowFromDirectory\<close>, \<open>LoadPretrained\<close>, \<open>Evaluate\<close> and \<open>Convert\<close>.\<close>

lemma quiet_print_lines:
  assumes "\<And>m. f (Print m) = None"
  shows "quiet f (print_lines d ks)"
  unfolding quiet_def
proof
  fix w
  show "List.map_filter f (trace (snd (print_lines d ks w))) = List.map_filter f (trace w)"
    by (induction d ks w rule: print_lines.induct)
       (simp_all add: map_filter_append assms List.map_filter_simps split: sum.splits)
qed

lemma quiet_evaluate_model:
  assumes "\<And>m. f (Print m) = None" and "f Evaluate = None"
  shows "quiet f (evaluate_model eng model g)"
  unfolding evaluate_model_def Let_def
  by (intro quiet_intros quiet_print_lines assms)

lemma quiet_evaluate_and_save:
  assumes "\<And>m. f (Print m) = None" and "f Evaluate = None"
  shows "quiet f (evaluate_and_save eng a model g)"
  unfolding evaluate_and_save_def Let_def
  by (intro quiet_intros quiet_evaluate_model quiet_save_model assms)

lemma quiet_convert_to_tflite:
  assumes "\<And>m. f (Print m) = None" and "f Convert = None"
  shows "quiet f (convert_to_tflite eng model out)"
  unfolding convert_to_tflite_def Let_def
  by (intro quiet_intros quiet_makedirs quiet_write_file assms)

lemma quiet_add_tflite_metadata:
  assumes "\<And>m. f (Print m) = None"
  shows "quiet f (add_tflite_metadata eng p out)"
  unfolding add_tflite_metadata_def Let_def
  by (intro quiet_intros quiet_populate_file quiet_copy_file assms)

lemma quiet_export_and_finish:
  assumes "\<And>m. f (Print m) = None" and "f Convert = None"
  shows "quiet f (export_and_finish eng a model)"
  unfolding export_and_finish_def
  by (intro quiet_intros quiet_convert_to_tflite quiet_add_tflite_metadata assms)

lemma quiet_create_data_generators:
  assumes "\<And>m. f (Print m) = None" and "\<And>dg d fl. f (FlowFromDirectory dg d fl) = None"
  shows "quiet f (create_data_generators eng dir bs v)"
  unfolding create_data_generators_def flow_from_directory_def
  by (intro quiet_intros assms)

lemma quiet_create_model:
  assumes "\<And>m. f (Print m) = None" and "f LoadPretrained = None"
  shows "quiet f (create_model eng k)"
  unfolding create_model_def Let_def
  by (intro quiet_intros assms)

lemma quiet_get_callbacks: "quiet f (get_callbacks out)"
  unfolding get_callbacks_def
  by (intro quiet_intros quiet_makedirs)

lemma quiet_compile_model: "f (Compile lr) = None \<Longrightarrow> quiet f (always (compile_model model lr))"
  by (simp add: quiet_def always_def compile_model_def map_filter_append List.map_filter_simps)

lemma quiet_prepare:
  assumes "\<And>m. f (Print m) = None" and "\<And>dg d fl. f (FlowFromDirectory dg d fl) = None"
      and "f LoadPretrained = None" and "\<And>lr. f (Compile lr) = None"
  shows "quiet f (prepare eng a)"
  unfolding prepare_def
  by (intro quiet_intros quiet_create_data_generators quiet_create_model quiet_get_callbacks
      quiet_compile_model assms)

lemma prepare_persisted: "persisted (trace (snd (prepare eng a w))) = persisted (trace w)"
  using quietD [of persisted_auc "prepare eng a" w]
  by (simp add: persisted_def quiet_prepare)

lemma makedirs_traceD: "makedirs p w = (r, w1) \<Longrightarrow> trace w1 = trace w"
  using trace_makedirs [of p w] by simp

lemma prepare_spec:
  "ensures (prepare eng a) w
     (\<lambda>x w1. schedule (trace w1) = schedule (trace w) @ [Compile (learning_rate a)]
              \<and> base_layers (fst x) = map (set_trainable False) (extractor_layers eng)
              \<and> compiled (fst x) = Some (compile_with (learning_rate a)))
     (\<lambda>e w1. schedule (trace w1) = schedule (trace w)
              \<or> schedule (trace w1) = schedule (trace w) @ [Compile (learning_rate a)])"
  unfolding prepare_def create_data_generators_def flow_from_directory_def create_model_def
    get_callbacks_def compile_model_def
  apply (simp add: Let_def extractor_layers_def split: sum.splits)
  apply (intro allI impI conjI ensuresI)
  apply (auto dest!: makedirs_traceD)
  done

text \<open>The two training phases.\<close>

lemma fit_scheduleD:
  "fit eng model tg vg cbs n i w = (r, w1) \<Longrightarrow>
   schedule (trace w1) = schedule (trace w) @
     [Fit n i (map_option optimizer_lr (compiled model))
        (length (filter trainable (base_layers model)))]"
  using fit_schedule [of eng model tg vg cbs n i w] by simp

lemma fit_returnedD:
  "fit eng model tg vg cbs n i w = (Inr (m, c), w1) \<Longrightarrow>
   base_layers m = base_layers model \<and> compiled m = compiled model"
  using ensures_returned [OF fit_spec, of eng model tg vg cbs n i w "(m, c)"] by simp

lemma train_phases_schedule:
  "ensures (train_phases eng a) w
     (\<lambda>x w1. schedule (trace w1) = schedule (trace w) @ planned_schedule eng a)
     (\<lambda>e w1. prefix (schedule (trace w1)) (schedule (trace w) @ planned_schedule eng a))"
  unfolding train_phases_def
  apply (simp add: Let_def)
  apply (rule ensures_mono [OF prepare_spec])
   apply (clarsimp simp: split_beta)
   apply (rule ensuresI)
    apply (clarsimp simp: split_beta)
    apply (frule fit_scheduleD)
    apply (drule fit_returnedD)
  apply (intro conjI impI)
  apply (rule ensuresI)
      apply (auto dest!: fit_scheduleD
        simp: planned_schedule_def fine_tune_model_schedule fine_tune_model_trainable
          fine_tune_model_compiled filter_trainable_none length_slice_to compile_with_def)
  done

lemma fit_invariant:
  "checkpoint_inv cbs w \<Longrightarrow>
   ensures (fit eng model tg vg cbs n i) w
     (\<lambda>x w1. checkpoint_inv (snd x) w1)
     (\<lambda>e w1. sorted_wrt (<) (persisted (trace w1)))"
  by (rule ensures_mono [OF fit_spec]) simp_all

lemma prepare_persistedD:
  "prepare eng a w = (r, w1) \<Longrightarrow> persisted (trace w1) = persisted (trace w)"
  using prepare_persisted [of eng a w] by simp

lemma checkpoint_inv_fine_tune:
  "checkpoint_inv cbs w \<Longrightarrow>
   checkpoint_inv cbs (snd (fine_tune_model model k lr (emit (Print Phase2Banner) w)))"
  by (simp add: checkpoint_inv_def fine_tune_model_persisted)

lemma train_phases_persisted:
  assumes "persisted (trace w) = []"
  shows "ensures (train_phases eng a) w
     (\<lambda>x w1. sorted_wrt (<) (persisted (trace w1)))
     (\<lambda>e w1. sorted_wrt (<) (persisted (trace w1)))"
  unfolding train_phases_def
  apply (simp add: Let_def)
  apply (rule ensuresI)
   apply (clarsimp simp: split_beta)
   apply (drule prepare_persistedD)
   apply (rule ensures_mono [OF fit_invariant])
     apply (rule checkpoint_inv_start)
     apply (simp add: assms)
    apply (clarsimp simp: split_beta)
    apply (intro conjI impI)
     apply (rule ensures_mono [OF fit_invariant])
       apply (erule checkpoint_inv_fine_tune)
      apply (simp add: split_beta checkpoint_inv_sorted)
     apply simp
    apply (simp add: checkpoint_inv_sorted)
   apply simp
  apply (drule prepare_persistedD)
  apply (simp add: assms)
  done

subsection \<open>The pipeline\<close>

lemma files_print_header [simp]: "files (print_header a fs) = fs"
  by (simp add: print_header_def)

lemma trace_print_header [simp]:
  "trace (print_header a fs)
     = [Print (RunHeader (data_dir a) (epochs a) (batch_size a) (learning_rate a) (output_dir a))]"
  by (simp add: print_header_def)

lemma main_checked:
  assumes "path_exists fs (data_dir a)"
      and "path_exists fs (path_join (data_dir a) ''anemic'')"
      and "path_exists fs (path_join (data_dir a) ''normal'')"
  shows "main eng a fs =
     and_then (train_phases eng a) (\<lambda>(model, val_gen).
       and_then (evaluate_and_save eng a model val_gen) (\<lambda>_.
       export_and_finish eng a model)) (print_header a fs)"
  using assms by (simp add: main_def Let_def)

lemma main_unchecked:
  assumes "\<not> (path_exists fs (data_dir a)
            \<and> path_exists fs (path_join (data_dir a) ''anemic'')
            \<and> path_exists fs (path_join (data_dir a) ''normal''))"
  shows "main eng a fs =
     (Inr (),
      \<lparr>files = fs,
       trace = [Print (RunHeader (data_dir a) (epochs a) (batch_size a) (learning_rate a)
                  (output_dir a)),
                Print (if \<not> path_exists fs (data_dir a) then DataDirNotFound (data_dir a)
                       else MissingClassDirs (data_dir a))]\<rparr>)"
  using assms by (auto simp: main_def Let_def emit_def print_header_def)

lemma quiet_after_training:
  assumes "\<And>m. f (Print m) = None" and "f Evaluate = None" and "f Convert = None"
  shows "quiet f (and_then (evaluate_and_save eng a model g) (\<lambda>_. export_and_finish eng a model))"
  by (intro quiet_intros quiet_evaluate_and_save quiet_export_and_finish assms)

lemma main_observed:
  assumes "path_exists fs (data_dir a)"
      and "path_exists fs (path_join (data_dir a) ''anemic'')"
      and "path_exists fs (path_join (data_dir a) ''normal'')"
      and "\<And>m. f (Print m) = None" and "f Evaluate = None" and "f Convert = None"
  shows "List.map_filter f (trace (snd (main eng a fs)))
           = List.map_filter f (trace (snd (train_phases eng a (print_header a fs))))"
proof (cases "train_phases eng a (print_header a fs)")
  case (Pair r w1)
  show ?thesis
  proof (cases r)
    case (Inl e)
    with Pair show ?thesis
      by (simp add: main_checked [OF assms(1-3)] and_then_def)
  next
    case (Inr x)
    obtain model g where x: "x = (model, g)" by (cases x)
    from Pair Inr x show ?thesis
      using quietD [OF quiet_after_training [of f eng a model g, OF assms(4-6)], of w1]
      by (simp add: main_checked [OF assms(1-3)] and_then_def)
  qed
qed

lemma main_returned:
  assumes "path_exists fs (data_dir a)"
      and "path_exists fs (path_join (data_dir a) ''anemic'')"
      and "path_exists fs (path_join (data_dir a) ''normal'')"
      and "fst (main eng a fs) = Inr ()"
  shows "\<exists>x. fst (train_phases eng a (print_header a fs)) = Inr x"
  using assms(4)
  by (cases "train_phases eng a (print_header a fs)")
     (auto simp: main_checked [OF assms(1-3)] and_then_def split: sum.splits)

lemma main_persisted_sorted: "sorted_wrt (<) (persisted (trace (snd (main eng a fs))))"
proof (cases "path_exists fs (data_dir a)
            \<and> path_exists fs (path_join (data_dir a) ''anemic'')
            \<and> path_exists fs (path_join (data_dir a) ''normal'')")
  case False
  then show ?thesis by (simp add: main_unchecked)
next
  case True
  then have "persisted (trace (snd (main eng a fs)))
               = persisted (trace (snd (train_phases eng a (print_header a fs))))"
    using main_observed [of fs a persisted_auc eng] by (simp add: persisted_def)
  moreover have "sorted_wrt (<) (persisted (trace (snd (train_phases eng a (print_header a fs)))))"
    by (rule ensures_world [OF train_phases_persisted]) simp
  ultimately show ?thesis by simp
qed

lemma sorted_wrt_split:
  assumes "sorted_wrt (<) (persisted tr)"
  shows "\<forall>v\<in>set (persisted (dropWhile P tr)). \<forall>b\<in>set (persisted (takeWhile P tr)). b < v"
proof -
  have "persisted tr = persisted (takeWhile P tr) @ persisted (dropWhile P tr)"
    by (metis persisted_simps(3) takeWhile_dropWhile_id)
  with assms show ?thesis by (auto simp: sorted_wrt_append)
qed

lemma main_schedule_prefix:
  "prefix (schedule (trace (snd (main eng a fs)))) (planned_schedule eng a)"
proof (cases "path_exists fs (data_dir a)
            \<and> path_exists fs (path_join (data_dir a) ''anemic'')
            \<and> path_exists fs (path_join (data_dir a) ''normal'')")
  case False
  then show ?thesis by (simp add: main_unchecked)
next
  case True
  then have "schedule (trace (snd (main eng a fs)))
               = schedule (trace (snd (train_phases eng a (print_header a fs))))"
    using main_observed [of fs a schedule_event eng] by (simp add: schedule_def)
  moreover have "prefix (schedule (trace (snd (train_phases eng a (print_header a fs)))))
                   (planned_schedule eng a)"
    using ensures_world [OF ensures_mono [OF train_phases_schedule [of eng a "print_header a fs"]],
        of "\<lambda>w1. prefix (schedule (trace w1)) (planned_schedule eng a)"]
    by simp
  ultimately show ?thesis by simp
qed

lemma main_schedule_trained:
  assumes "path_exists fs (data_dir a)"
      and "path_exists fs (path_join (data_dir a) ''anemic'')"
      and "path_exists fs (path_join (data_dir a) ''normal'')"
      and "fst (train_phases eng a (print_header a fs)) = Inr x"
  shows "schedule (trace (snd (main eng a fs))) = planned_schedule eng a"
proof -
  have "schedule (trace (snd (main eng a fs)))
               = schedule (trace (snd (train_phases eng a (print_header a fs))))"
    using main_observed [of fs a schedule_event eng, OF assms(1-3)] by (simp add: schedule_def)
  moreover have "schedule (trace (snd (train_phases eng a (print_header a fs))))
                   = planned_schedule eng a"
    using ensures_returned [OF train_phases_schedule assms(4)] by simp
  ultimately show ?thesis by simp
qed

subsection \<open>A sample run\<close>

lemmas sample_defs =
  sample_engine_def sample_tflite_def sample_args_def default_args_def sample_fs_def
  sample_layers_def sample_results_def sample_model_def sample_world_def

lemmas stage_defs =
  main_def print_header_def train_phases_def prepare_def evaluate_and_save_def
  export_and_finish_def create_data_generators_def
  flow_from_directory_def create_model_def compile_model_def get_callbacks_def fit_def
  fine_tune_model_def evaluate_model_def convert_to_tflite_def add_tflite_metadata_def
  populate_file_def copy_file_def save_model_def emit_def write_file_def store_def makedirs_def
  ancestors_def strip_slashes_def basename_def path_exists_def
  path_join_def Let_def dict_zip_def getitem_def truediv_def slice_to_def set_trainable_def
  compile_with_def and_then_def succeed_def say_def always_def runtime_def attempt_def
  with_files_def

lemma sample_checks:
  "path_exists sample_fs (data_dir sample_args)"
  "path_exists sample_fs (path_join (data_dir sample_args) ''anemic'')"
  "path_exists sample_fs (path_join (data_dir sample_args) ''normal'')"
  by (simp_all add: sample_fs_def sample_args_def default_args_def path_exists_def
      path_join_def)

lemma sample_run_trace:
  "trace (snd (main (sample_engine None sample_results) sample_args sample_fs)) =
     [Print (RunHeader ''./data'' 4 32 (1 / 1000) ''./models''),
      FlowFromDirectory (train_datagen (2 / 10)) ''./data'' (flow_args 32 ''training'' True),
      FlowFromDirectory (val_datagen (2 / 10)) ''./data'' (flow_args 32 ''validation'' False),
      Print (DatasetSummary 0 0),
      LoadPretrained,
      Print (ModelArchitecture 1000),
      Compile (1 / 1000),
      Print ModelSummary,
      Print Phase1Banner,
      Fit 2 0 (Some (1 / 1000)) 0,
      SaveCheckpoint ''./models/anemia_model_best.keras'' 0 (6 / 10),
      Print Phase2Banner,
      Compile (1 / 10000),
      Print (FineTuningEnabled 3),
      Fit 4 2 (Some (1 / 10000)) 3,
      SaveCheckpoint ''./models/anemia_model_best.keras'' 3 (7 / 10),
      Print Evaluating,
      Evaluate,
      Print FinalMetricsHeader,
      Print (MetricLine ''Loss'' (1 / 2)),
      Print (MetricLine ''Accuracy'' (9 / 10)),
      Print (MetricLine ''Precision'' (1 / 2)),
      Print (MetricLine ''Recall'' 1),
      Print (MetricLine ''AUC'' (9 / 10)),
      Print (F1Line (2 / 3)),
      Print (KerasSaved ''./models/anemia_model_final.keras''),
      Print ConvertBanner,
      Convert,
      Print (TfliteSaved ''./models/anemia_detector.tflite'' 2),
      Print (LabelsAndMetadataSaved ''./models/labels.txt'' ''./models/model_metadata.json''),
      Print TfliteSupportMissing,
      Print (TrainingComplete ''./models'')]"
  by (simp add: sample_defs stage_defs)

lemma sample_run_files:
  "files (snd (main (sample_engine None sample_results) sample_args sample_fs)) =
     sample_fs
       (''.'' \<mapsto> Dir,
        ''./models'' \<mapsto> Dir,
        ''./models/anemia_model_best.keras'' \<mapsto> File (Binary [4]),
        ''./models/anemia_model_final.keras'' \<mapsto> File (Binary [4]),
        ''./models/anemia_detector.tflite'' \<mapsto> File (Binary [4, 16]),
        ''./models/labels.txt'' \<mapsto> File (Text labels_text),
        ''./models/model_metadata.json'' \<mapsto> File (Json metadata))"
  by (simp add: sample_defs stage_defs)

lemma sample_run_returns:
  "fst (main (sample_engine None sample_results) sample_args sample_fs) = Inr ()"
  by (simp add: sample_defs stage_defs)

text \<open>Runs that end in an exception: a runtime whose training raises, an empty output
  path, and an output path that is a regular file.\<close>

lemma failed_training_run:
  "fst (main failing_engine sample_args sample_fs) = Inl (RuntimeFailure ''no images'')
   \<and> schedule (trace (snd (main failing_engine sample_args sample_fs)))
       = [Compile (1 / 1000), Fit 2 0 (Some (1 / 1000)) 0]
   \<and> last (trace (snd (main failing_engine sample_args sample_fs))) = Fit 2 0 (Some (1 / 1000)) 0"
  by (simp add: failing_engine_def sample_defs stage_defs)

lemma empty_output_path_run:
  "fst (main (sample_engine None sample_results) (sample_args\<lparr>output_dir := []\<rparr>) sample_fs)
     = Inl FileNotFoundError
   \<and> schedule (trace (snd (main (sample_engine None sample_results)
        (sample_args\<lparr>output_dir := []\<rparr>) sample_fs))) = [Compile (1 / 1000)]"
  by (simp add: sample_defs stage_defs)

lemma output_path_regular_file_run:
  "fst (main (sample_engine None sample_results) sample_args
          (sample_fs(''./models'' \<mapsto> File (Text []))))
     = Inl FileExistsError
   \<and> schedule (trace (snd (main (sample_engine None sample_results) sample_args
          (sample_fs(''./models'' \<mapsto> File (Text [])))))) = [Compile (1 / 1000)]"
  by (simp add: sample_defs stage_defs)

subsection \<open>Configuration errors\<close>

text \<open>
  C1, as stated, fails for an empty class directory: \<^verbatim>\<open>main\<close> checks that the three
  directories exist and nothing else. In the sample file system the directory
  \<^verbatim>\<open>./data/anemic\<close> exists and is empty; the run partitions the data, trains, and
  creates the output directory.
\<close>

theorem empty_class_directory_counterexample:
  "dir_empty sample_fs (path_join (data_dir sample_args) ''anemic'')
   \<and> partitioning (trace (snd (main (sample_engine None sample_results) sample_args
         sample_fs)))
       = [FlowFromDirectory (train_datagen (2 / 10)) ''./data''
            (flow_args 32 ''training'' True),
          FlowFromDirectory (val_datagen (2 / 10)) ''./data''
            (flow_args 32 ''validation'' False)]
   \<and> schedule (trace (snd (main (sample_engine None sample_results) sample_args sample_fs)))
       = [Compile (1 / 1000), Fit 2 0 (Some (1 / 1000)) 0,
          Compile (1 / 10000), Fit 4 2 (Some (1 / 10000)) 3]
   \<and> sample_fs ''./models'' = None
   \<and> files (snd (main (sample_engine None sample_results) sample_args sample_fs))
         ''./models'' = Some Dir"
proof (intro conjI)
  show "dir_empty sample_fs (path_join (data_dir sample_args) ''anemic'')"
    by (simp add: dir_empty_def sample_fs_def sample_args_def default_args_def path_join_def)
  show "sample_fs ''./models'' = None"
    by (simp add: sample_fs_def)
  show "files (snd (main (sample_engine None sample_results) sample_args sample_fs))
         ''./models'' = Some Dir"
    by (simp add: sample_run_files)
qed (simp_all add: sample_run_trace)

text \<open>
  C1, amended. When the data root directory is missing, or either class subdirectory
  (\<^verbatim>\<open>anemic\<close> or \<^verbatim>\<open>normal\<close>) is missing, \<^verbatim>\<open>main\<close> prints the run header and one
  diagnostic and returns: nothing else is printed, no call into the runtime is made (no
  partitioning, no training) and the file system is left as it was.
\<close>

theorem missing_directory_halts:
  assumes "\<not> path_exists fs (data_dir a)
           \<or> \<not> path_exists fs (path_join (data_dir a) ''anemic'')
           \<or> \<not> path_exists fs (path_join (data_dir a) ''normal'')"
  shows "main eng a fs =
     (Inr (),
      \<lparr>files = fs,
       trace = [Print (RunHeader (data_dir a) (epochs a) (batch_size a) (learning_rate a)
                  (output_dir a)),
                Print (if \<not> path_exists fs (data_dir a) then DataDirNotFound (data_dir a)
                       else MissingClassDirs (data_dir a))]\<rparr>)"
  using assms by (intro main_unchecked) blast

theorem missing_directory_halts_witness:
  "\<not> path_exists incomplete_fs (path_join (data_dir default_args) ''anemic'')
   \<and> main (sample_engine None sample_results) default_args incomplete_fs =
       (Inr (),
        \<lparr>files = incomplete_fs,
         trace = [Print (RunHeader ''./data'' 50 32 (1 / 1000) ''./models''),
                  Print (MissingClassDirs ''./data'')]\<rparr>)"
proof -
  have h: "\<not> path_exists incomplete_fs (path_join (data_dir default_args) ''anemic'')"
    by (simp add: incomplete_fs_def default_args_def path_exists_def path_join_def)
  have d: "path_exists incomplete_fs (data_dir default_args)"
    by (simp add: incomplete_fs_def default_args_def path_exists_def)
  show ?thesis
    using h d missing_directory_halts [of incomplete_fs default_args
        "sample_engine None sample_results"]
    by (simp add: default_args_def)
qed

subsection \<open>The training schedule\<close>

text \<open>
  C5. For every configured number of epochs \<open>E\<close>, in every run the compilations and the
  calls of \<^verbatim>\<open>fit\<close> are an initial part of this list: the model is compiled at the
  configured rate; Phase 1 calls \<^verbatim>\<open>fit\<close> with \<open>epochs = min 10 (E div 2)\<close> (floor
  division), \<open>initial_epoch = 0\<close> and no trainable layer in the feature extractor; and,
  only when \<open>E\<close> exceeds that number, the model is recompiled at a tenth of the configured
  rate and Phase 2 calls \<^verbatim>\<open>fit\<close> with \<open>initial_epoch\<close> the Phase-1 number and
  \<open>epochs = E\<close>. A run that raises, in the runtime or when the output directory cannot be
  created, stops inside the list. When the directory checks pass and training returns,
  and so whenever \<^verbatim>\<open>main\<close> returns after passing the checks, the calls are the whole
  list: Phase 2 is entered exactly when \<open>E\<close> exceeds the Phase-1 number.
\<close>

theorem two_phase_schedule:
  "prefix (schedule (trace (snd (main eng a fs)))) (planned_schedule eng a)
   \<and> (path_exists fs (data_dir a)
       \<and> path_exists fs (path_join (data_dir a) ''anemic'')
       \<and> path_exists fs (path_join (data_dir a) ''normal'')
       \<and> fst (train_phases eng a (print_header a fs)) = Inr x
      \<longrightarrow> schedule (trace (snd (main eng a fs))) = planned_schedule eng a)
   \<and> (path_exists fs (data_dir a)
       \<and> path_exists fs (path_join (data_dir a) ''anemic'')
       \<and> path_exists fs (path_join (data_dir a) ''normal'')
       \<and> fst (main eng a fs) = Inr ()
      \<longrightarrow> schedule (trace (snd (main eng a fs))) = planned_schedule eng a)"
  using main_schedule_prefix [of eng a fs] main_schedule_trained [of fs a eng]
    main_returned [of fs a eng]
  by blast

theorem two_phase_schedule_witness:
  "path_exists sample_fs (data_dir sample_args)
   \<and> path_exists sample_fs (path_join (data_dir sample_args) ''anemic'')
   \<and> path_exists sample_fs (path_join (data_dir sample_args) ''normal'')
   \<and> fst (main (sample_engine None sample_results) sample_args sample_fs) = Inr ()
   \<and> schedule (trace (snd (main (sample_engine None sample_results) sample_args sample_fs)))
       = planned_schedule (sample_engine None sample_results) sample_args
   \<and> planned_schedule (sample_engine None sample_results) sample_args
       = [Compile (1 / 1000), Fit 2 0 (Some (1 / 1000)) 0,
          Compile (1 / 10000), Fit 4 2 (Some (1 / 10000)) 3]"
proof -
  have p: "planned_schedule (sample_engine None sample_results) sample_args
       = [Compile (1 / 1000), Fit 2 0 (Some (1 / 1000)) 0,
          Compile (1 / 10000), Fit 4 2 (Some (1 / 10000)) 3]"
    by (simp add: planned_schedule_def extractor_layers_def sample_args_def default_args_def
        sample_engine_def sample_layers_def slice_to_def)
  show ?thesis
    using sample_checks sample_run_returns p
      two_phase_schedule [of "sample_engine None sample_results" sample_args sample_fs]
    by blast
qed

subsection \<open>Checkpoints\<close>

text \<open>
  C4. The callbacks are created once and the same objects, with the best-seen value they
  carry, serve both calls of \<^verbatim>\<open>fit\<close>. Over a whole run (Phase 1 followed by Phase 2)
  the monitored validation AUC of the persisted checkpoints increases strictly, hence
  never decreases; and every checkpoint persisted after Phase 2 has begun exceeds every
  checkpoint persisted before, in particular the best of Phase 1.
\<close>

theorem persisted_checkpoints_increase:
  "sorted_wrt (<) (persisted (trace (snd (main eng a fs))))
   \<and> (\<forall>v\<in>set (persisted (dropWhile (\<lambda>e. e \<noteq> Print Phase2Banner)
                    (trace (snd (main eng a fs))))).
        \<forall>b\<in>set (persisted (takeWhile (\<lambda>e. e \<noteq> Print Phase2Banner)
                    (trace (snd (main eng a fs))))). b < v)"
  using main_persisted_sorted [of eng a fs] sorted_wrt_split by blast

theorem persisted_checkpoints_increase_witness:
  "persisted (takeWhile (\<lambda>e. e \<noteq> Print Phase2Banner)
      (trace (snd (main (sample_engine None sample_results) sample_args sample_fs))))
     = [6 / 10]
   \<and> persisted (dropWhile (\<lambda>e. e \<noteq> Print Phase2Banner)
      (trace (snd (main (sample_engine None sample_results) sample_args sample_fs))))
     = [7 / 10]
   \<and> sorted_wrt (<)
       (persisted (trace (snd (main (sample_engine None sample_results) sample_args
          sample_fs))))"
  using persisted_checkpoints_increase [of "sample_engine None sample_results" sample_args
      sample_fs]
  by (simp add: sample_run_trace)

subsection \<open>Export and the optional metadata embedding\<close>

lemma convert_to_tflite_spec:
  "ensures (convert_to_tflite eng model out) w
     (\<lambda>p w1. p = path_join out ''anemia_detector.tflite''
        \<and> (case convert eng model of
              Inl msg \<Rightarrow> False
            | Inr b \<Rightarrow> files w1 p = Some (File (Binary b)))
        \<and> files w1 (path_join out ''labels.txt'') = Some (File (Text labels_text))
        \<and> files w1 (path_join out ''model_metadata.json'') = Some (File (Json metadata)))
     (\<lambda>e w1. True)"
  unfolding convert_to_tflite_def
  apply (simp add: Let_def)
  apply (rule ensuresI)
   apply (simp split: sum.splits)
   apply (intro allI impI conjI ensures_write_file)
        apply (simp_all add: path_join_eq_iff)
  done

lemma add_tflite_metadata_unavailable:
  "tflite eng = None \<Longrightarrow>
   add_tflite_metadata eng p out w = (Inr p, emit (Print TfliteSupportMissing) w)"
  by (simp add: add_tflite_metadata_def succeed_def)

lemma main_stages:
  assumes "path_exists fs (data_dir a)"
      and "path_exists fs (path_join (data_dir a) ''anemic'')"
      and "path_exists fs (path_join (data_dir a) ''normal'')"
      and "fst (main eng a fs) = Inr ()"
  shows "\<exists>model val_gen w1 w2 p w3.
           train_phases eng a (print_header a fs) = (Inr (model, val_gen), w1)
         \<and> evaluate_and_save eng a model val_gen w1 = (Inr (), w2)
         \<and> convert_to_tflite eng model (output_dir a) (emit (Print ConvertBanner) w2)
             = (Inr p, w3)"
  using assms(4) unfolding main_checked [OF assms(1-3)] export_and_finish_def
  by (auto simp: and_then_def say_def split: prod.splits sum.splits)

text \<open>
  C9. When importing tflite-support fails, the embedding step raises nothing: it prints
  the warning, returns the path it was given and leaves every file as it was. So in every
  run of \<^verbatim>\<open>main\<close> that passes the directory checks and in which the steps before the
  embedding return (training, evaluation and the saving of the model, and the conversion
  with its three files), \<^verbatim>\<open>main\<close> returns normally; the last two things printed are
  the warning and the completion message; and the files are those the conversion left: the
  quantized artifact holding the converter's output with nothing embedded, the label file
  and the standalone metadata document.
\<close>

theorem export_without_tflite_support:
  assumes "tflite eng = None"
      and "path_exists fs (data_dir a)"
      and "path_exists fs (path_join (data_dir a) ''anemic'')"
      and "path_exists fs (path_join (data_dir a) ''normal'')"
      and "train_phases eng a (print_header a fs) = (Inr (model, val_gen), w1)"
      and "evaluate_and_save eng a model val_gen w1 = (Inr (), w2)"
      and "convert_to_tflite eng model (output_dir a) (emit (Print ConvertBanner) w2)
             = (Inr p, w3)"
  shows "add_tflite_metadata eng p (output_dir a) w3
           = (Inr p, emit (Print TfliteSupportMissing) w3)
   \<and> main eng a fs
       = (Inr (), emit (Print (TrainingComplete (output_dir a)))
                    (emit (Print TfliteSupportMissing) w3))
   \<and> p = path_join (output_dir a) ''anemia_detector.tflite''
   \<and> (case convert eng model of
         Inl msg \<Rightarrow> False
       | Inr b \<Rightarrow> files w3 p = Some (File (Binary b)))
   \<and> files w3 (path_join (output_dir a) ''labels.txt'') = Some (File (Text labels_text))
   \<and> files w3 (path_join (output_dir a) ''model_metadata.json'') = Some (File (Json metadata))"
proof -
  have m: "main eng a fs = export_and_finish eng a model w2"
    by (simp add: main_checked [OF assms(2-4)]
        and_then_returns [of "train_phases eng a" "print_header a fs", OF assms(5)]
        and_then_returns [of "evaluate_and_save eng a model val_gen" w1, OF assms(6)])
  have e: "export_and_finish eng a model w2
       = (Inr (), emit (Print (TrainingComplete (output_dir a)))
                    (emit (Print TfliteSupportMissing) w3))"
    by (simp add: export_and_finish_def
        and_then_returns [of "convert_to_tflite eng model (output_dir a)"
          "emit (Print ConvertBanner) w2", OF assms(7)]
        and_then_returns [of "add_tflite_metadata eng p (output_dir a)" w3,
          OF add_tflite_metadata_unavailable [OF assms(1)]] say_def)
  have c: "fst (convert_to_tflite eng model (output_dir a) (emit (Print ConvertBanner) w2))
             = Inr p"
    by (simp add: assms(7))
  show ?thesis
    using ensures_returned [OF convert_to_tflite_spec c]
    by (auto simp: m e add_tflite_metadata_unavailable [OF assms(1)] assms(7)
        split: sum.splits)
qed

theorem export_without_tflite_support_witness:
  "tflite (sample_engine None sample_results) = None
   \<and> path_exists sample_fs (data_dir sample_args)
   \<and> path_exists sample_fs (path_join (data_dir sample_args) ''anemic'')
   \<and> path_exists sample_fs (path_join (data_dir sample_args) ''normal'')
   \<and> fst (main (sample_engine None sample_results) sample_args sample_fs) = Inr ()
   \<and> last (butlast (trace (snd (main (sample_engine None sample_results) sample_args
        sample_fs)))) = Print TfliteSupportMissing
   \<and> last (trace (snd (main (sample_engine None sample_results) sample_args sample_fs)))
       = Print (TrainingComplete (output_dir sample_args))
   \<and> files (snd (main (sample_engine None sample_results) sample_args sample_fs))
        (path_join (output_dir sample_args) ''labels.txt'') = Some (File (Text labels_text))
   \<and> files (snd (main (sample_engine None sample_results) sample_args sample_fs))
        (path_join (output_dir sample_args) ''model_metadata.json'')
       = Some (File (Json metadata))
   \<and> files (snd (main (sample_engine None sample_results) sample_args sample_fs))
        ''./models/anemia_detector.tflite'' = Some (File (Binary [4, 16]))
   \<and> files (snd (main (sample_engine None sample_results) sample_args sample_fs))
        ''./models/anemia_detector_with_metadata.tflite'' = None"
proof -
  let ?eng = "sample_engine None sample_results"
  have t: "tflite ?eng = None"
    by (simp add: sample_engine_def)
  obtain model val_gen w1 w2 p w3 where
    tp: "train_phases ?eng sample_args (print_header sample_args sample_fs)
           = (Inr (model, val_gen), w1)" and
    es: "evaluate_and_save ?eng sample_args model val_gen w1 = (Inr (), w2)" and
    cv: "convert_to_tflite ?eng model (output_dir sample_args) (emit (Print ConvertBanner) w2)
           = (Inr p, w3)"
    using main_stages [OF sample_checks sample_run_returns] by blast
  note x = export_without_tflite_support [OF t sample_checks tp es cv]
  have r: "fst (main ?eng sample_args sample_fs) = Inr ()"
    using x by simp
  have w: "last (butlast (trace (snd (main ?eng sample_args sample_fs))))
             = Print TfliteSupportMissing"
    using x by (simp add: butlast_append)
  have c: "last (trace (snd (main ?eng sample_args sample_fs)))
             = Print (TrainingComplete (output_dir sample_args))"
    using x by simp
  have l: "files (snd (main ?eng sample_args sample_fs))
             (path_join (output_dir sample_args) ''labels.txt'') = Some (File (Text labels_text))"
    using x by simp
  have d: "files (snd (main ?eng sample_args sample_fs))
             (path_join (output_dir sample_args) ''model_metadata.json'')
           = Some (File (Json metadata))"
    using x by simp
  have a: "files (snd (main ?eng sample_args sample_fs))
        ''./models/anemia_detector.tflite'' = Some (File (Binary [4, 16]))"
    unfolding sample_run_files by simp
  have n: "files (snd (main ?eng sample_args sample_fs))
        ''./models/anemia_detector_with_metadata.tflite'' = None"
    unfolding sample_run_files by (simp add: sample_fs_def)
  show ?thesis
    using t sample_checks r w c l d a n by blast
qed

text \<open>When tflite-support is there, the first \<^verbatim>\<open>populate()\<close> rewrites the file it was
  given; with a library that refuses a model that already holds metadata, the second
  \<^verbatim>\<open>populate()\<close>, on the copy, raises, and both files are left with the metadata.\<close>

lemma strict_library_run:
  "fst (add_tflite_metadata (sample_engine (Some strict_tflite) sample_results)
        ''./models/anemia_detector.tflite'' ''./models''
        (snd (convert_to_tflite (sample_engine (Some strict_tflite) sample_results)
           sample_model ''./models'' sample_world)))
       = Inl (RuntimeFailure ''already packed'')
   \<and> files (snd (add_tflite_metadata (sample_engine (Some strict_tflite) sample_results)
        ''./models/anemia_detector.tflite'' ''./models''
        (snd (convert_to_tflite (sample_engine (Some strict_tflite) sample_results)
           sample_model ''./models'' sample_world)))) ''./models/anemia_detector.tflite''
       = Some (File (Binary [0, 16, 77, 69, 84, 65]))
   \<and> files (snd (add_tflite_metadata (sample_engine (Some strict_tflite) sample_results)
        ''./models/anemia_detector.tflite'' ''./models''
        (snd (convert_to_tflite (sample_engine (Some strict_tflite) sample_results)
           sample_model ''./models'' sample_world))))
        ''./models/anemia_detector_with_metadata.tflite''
       = Some (File (Binary [0, 16, 77, 69, 84, 65]))"
  by (simp add: strict_tflite_def sample_defs stage_defs)

text \<open>
  C3 fails on the code when tflite-support is available. With a library whose
  \<^verbatim>\<open>populate\<close> puts the metadata buffer after the model bytes, the artifact that
  \<^verbatim>\<open>convert_to_tflite\<close> wrote as \<open>[0, 16]\<close> holds \<open>[0, 16, 77, 69, 84, 65]\<close> after
  \<^verbatim>\<open>add_tflite_metadata\<close>: the first \<^verbatim>\<open>populate()\<close> works on the exported file
  itself, and the variant with metadata is a copy of the file so rewritten.
\<close>

theorem metadata_embedding_rewrites_artifact:
  "fst (convert_to_tflite (sample_engine (Some sample_tflite) sample_results) sample_model
      ''./models'' sample_world) = Inr ''./models/anemia_detector.tflite''
   \<and> files (snd (convert_to_tflite (sample_engine (Some sample_tflite) sample_results)
        sample_model ''./models'' sample_world)) ''./models/anemia_detector.tflite''
       = Some (File (Binary [0, 16]))
   \<and> fst (add_tflite_metadata (sample_engine (Some sample_tflite) sample_results)
        ''./models/anemia_detector.tflite'' ''./models''
        (snd (convert_to_tflite (sample_engine (Some sample_tflite) sample_results)
           sample_model ''./models'' sample_world)))
       = Inr ''./models/anemia_detector_with_metadata.tflite''
   \<and> files (snd (add_tflite_metadata (sample_engine (Some sample_tflite) sample_results)
        ''./models/anemia_detector.tflite'' ''./models''
        (snd (convert_to_tflite (sample_engine (Some sample_tflite) sample_results)
           sample_model ''./models'' sample_world)))) ''./models/anemia_detector.tflite''
       = Some (File (Binary [0, 16, 77, 69, 84, 65]))
   \<and> files (snd (add_tflite_metadata (sample_engine (Some sample_tflite) sample_results)
        ''./models/anemia_detector.tflite'' ''./models''
        (snd (convert_to_tflite (sample_engine (Some sample_tflite) sample_results)
           sample_model ''./models'' sample_world))))
        ''./models/anemia_detector_with_metadata.tflite''
       = Some (File (Binary [0, 16, 77, 69, 84, 65]))"
  by (simp add: sample_defs stage_defs)

subsection \<open>The validation stream\<close>

text \<open>
  The validation generator is built from the arguments \<^verbatim>\<open>rescale\<close> and
  \<^verbatim>\<open>validation_split\<close> alone and flows its subset without shuffling; the call changes no
  file. What the runtime computes from such a generator is outside this development.
\<close>

lemma validation_generator_configuration:
  "ensures (create_data_generators eng dir bs v) w
     (\<lambda>x w1. datagen (snd x) = [(''rescale'', PNum (1 / 255)), (''validation_split'', PNum v)]
        \<and> map_of (flow (snd x)) ''shuffle'' = Some (PBool False)
        \<and> map_of (flow (snd x)) ''subset'' = Some (PStr ''validation'')
        \<and> files w1 = files w)
     (\<lambda>e w1. files w1 = files w)"
  by (simp add: create_data_generators_def flow_from_directory_def val_datagen_def
      flow_args_def split: sum.splits)

end
